theory Spec2Isabelle
  imports Complex_Main "HOL-Library.Sublist"
begin


section \<open>Strings\<close>

text \<open>
  Source text, identifiers and messages are \<open>string\<close>s. The characters are taken to be
  ASCII: \<open>str.lower\<close>, the character classes of the regular expressions and
  \<open>str.strip\<close> are modelled on the ASCII range only.

  Python's \<open>a in b\<close> on strings is the contiguous-substring test, \<^const>\<open>sublist\<close>.
\<close>

definition lower_char :: "char \<Rightarrow> char" where
  "lower_char c =
     (case map_of (zip ''ABCDEFGHIJKLMNOPQRSTUVWXYZ'' ''abcdefghijklmnopqrstuvwxyz'') c of
        Some l \<Rightarrow> l
      | None \<Rightarrow> c)"

definition lower :: "string \<Rightarrow> string" where
  "lower s = map lower_char s"

text \<open>\<open>any(p in s for p in ps)\<close>\<close>

definition any_in :: "string list \<Rightarrow> string \<Rightarrow> bool" where
  "any_in ps s = list_ex (\<lambda>p. sublist p s) ps"

text \<open>Decimal rendering of an integer, as an f-string does it.\<close>

definition digit_char :: "nat \<Rightarrow> char" where
  "digit_char d = ''0123456789'' ! d"

fun str_nat :: "nat \<Rightarrow> string" where
  "str_nat n = (if n < 10 then [digit_char n] else str_nat (n div 10) @ [digit_char (n mod 10)])"

definition str_int :: "int \<Rightarrow> string" where
  "str_int i = (if i < 0 then CHR ''-'' # str_nat (nat (- i)) else str_nat (nat i))"

section \<open>Findings of the performance rules\<close>

datatype Severity = CRITICAL | HIGH | MEDIUM | LOW

record PerformanceIssue =
  severity :: Severity
  rule :: string
  file_path :: string
  line_number :: int
  message :: string
  code_snippet :: "string option"
  suggested_fix :: "string option"
  auto_fixable :: bool
  impact_description :: string

section \<open>Syntax trees\<close>

text \<open>
  The tree that \<open>ast.parse\<close> returns, as far as the visitors look at it. A node kind
  with a \<open>visit_\<close> method in one of the visitors has a constructor of its own; every other
  node kind is \<open>Other\<close> with its child nodes in field order, which is all that
  \<open>generic_visit\<close> uses. Children are listed in the order of the node's \<open>_fields\<close>:
  \<open>Call(func, args, keywords)\<close>, \<open>For(target, iter, body, orelse)\<close>,
  \<open>While(test, body, orelse)\<close>, and for a function definition the \<open>args\<close>, the
  \<open>body\<close> and then the remaining children (decorators, return annotation).
  \<open>Name\<close> and \<open>Attribute\<close> are there because \<open>_get_call_name\<close> tests for them.
\<close>

datatype node =
    Name string
  | Attribute node string
  | Call int node "node list" "node list"
  | For int node node "node list" "node list"
  | While int node "node list" "node list"
  | FunctionDef int string "node list" "node list" "node list"
  | AsyncFunctionDef int string "node list" "node list" "node list"
  | Other "node list"

text \<open>\<open>_get_call_name\<close>, applied to the \<open>func\<close> child of a call.\<close>

fun get_call_name :: "node \<Rightarrow> string" where
  "get_call_name (Name ident) = ident"
| "get_call_name (Attribute v attr) = attr"
| "get_call_name _ = ''unknown''"

subsection \<open>QueryPatternDetector\<close>

record QueryPatternDetector =
  qpd_issues :: "PerformanceIssue list"
  in_loop :: bool
  loop_depth :: int

definition QueryPatternDetector_init :: QueryPatternDetector where
  "QueryPatternDetector_init = \<lparr>qpd_issues = [], in_loop = False, loop_depth = 0\<rparr>"

definition db_patterns :: "string list" where
  "db_patterns =
     [''query'', ''execute'', ''fetch'', ''get_by_id'', ''select'',
      ''find'', ''filter'', ''all'', ''count'', ''aggregate'',
      ''db.session'', ''db.query'', ''db.execute'']"

definition n_plus_1_issue :: "string \<Rightarrow> int \<Rightarrow> string \<Rightarrow> int \<Rightarrow> PerformanceIssue" where
  "n_plus_1_issue fp lineno call_name depth =
     \<lparr>severity = (if depth > 1 then CRITICAL else HIGH),
      rule = ''N+1 Query Pattern'',
      file_path = fp,
      line_number = lineno,
      message = ''Potential N+1 query detected: '' @ [CHR 0x27] @ call_name @ [CHR 0x27]
                @ '' called in loop (depth: '' @ str_int depth @ '')'',
      code_snippet = Some (''Line '' @ str_int lineno @ '': '' @ call_name @ ''(...)''),
      suggested_fix = Some ''Move query outside loop or use batch query method'',
      auto_fixable = False,
      impact_description =
        ''Multiplies database load by loop iterations, severe performance degradation''\<rparr>"

text \<open>The body of \<open>visit_Call\<close> before its \<open>generic_visit\<close>.\<close>

definition qpd_check_call :: "string \<Rightarrow> int \<Rightarrow> node \<Rightarrow> QueryPatternDetector \<Rightarrow> QueryPatternDetector" where
  "qpd_check_call fp lineno func s =
     (if in_loop s then
        (let call_name = get_call_name func in
         if any_in db_patterns (lower call_name)
         then s\<lparr>qpd_issues := qpd_issues s @ [n_plus_1_issue fp lineno call_name (loop_depth s)]\<rparr>
         else s)
      else s)"

definition qpd_enter_loop :: "QueryPatternDetector \<Rightarrow> QueryPatternDetector" where
  "qpd_enter_loop s = s\<lparr>in_loop := True, loop_depth := loop_depth s + 1\<rparr>"

definition qpd_exit_loop :: "QueryPatternDetector \<Rightarrow> QueryPatternDetector" where
  "qpd_exit_loop s =
     (let s' = s\<lparr>loop_depth := loop_depth s - 1\<rparr>
      in if loop_depth s' = 0 then s'\<lparr>in_loop := False\<rparr> else s')"

text \<open>
  \<open>visit\<close> dispatches on the node kind: \<open>visit_For\<close>, \<open>visit_While\<close> and
  \<open>visit_Call\<close> for their kinds, \<open>generic_visit\<close> (the children in field order) for
  all others.
\<close>

fun qpd_visit :: "string \<Rightarrow> node \<Rightarrow> QueryPatternDetector \<Rightarrow> QueryPatternDetector"
and qpd_visit_list :: "string \<Rightarrow> node list \<Rightarrow> QueryPatternDetector \<Rightarrow> QueryPatternDetector" where
  "qpd_visit fp (Name ident) s = s"
| "qpd_visit fp (Attribute v attr) s = qpd_visit fp v s"
| "qpd_visit fp (Call lineno func args keywords) s =
     qpd_visit_list fp keywords (qpd_visit_list fp args (qpd_visit fp func
       (qpd_check_call fp lineno func s)))"
| "qpd_visit fp (For lineno target iter body orelse) s =
     qpd_exit_loop (qpd_visit_list fp orelse (qpd_visit_list fp body (qpd_visit fp iter
       (qpd_visit fp target (qpd_enter_loop s)))))"
| "qpd_visit fp (While lineno test body orelse) s =
     qpd_exit_loop (qpd_visit_list fp orelse (qpd_visit_list fp body (qpd_visit fp test
       (qpd_enter_loop s))))"
| "qpd_visit fp (FunctionDef lineno name args body rest) s =
     qpd_visit_list fp rest (qpd_visit_list fp body (qpd_visit_list fp args s))"
| "qpd_visit fp (AsyncFunctionDef lineno name args body rest) s =
     qpd_visit_list fp rest (qpd_visit_list fp body (qpd_visit_list fp args s))"
| "qpd_visit fp (Other children) s = qpd_visit_list fp children s"
| "qpd_visit_list fp [] s = s"
| "qpd_visit_list fp (n # ns) s = qpd_visit_list fp ns (qpd_visit fp n s)"

subsection \<open>AlgorithmComplexityAnalyzer\<close>

record AlgorithmComplexityAnalyzer =
  aca_issues :: "PerformanceIssue list"
  current_function :: "node option"
  nested_loops :: int
  max_nesting :: int

definition AlgorithmComplexityAnalyzer_init :: AlgorithmComplexityAnalyzer where
  "AlgorithmComplexityAnalyzer_init =
     \<lparr>aca_issues = [], current_function = None, nested_loops = 0, max_nesting = 0\<rparr>"

definition function_complexity_issue :: "string \<Rightarrow> int \<Rightarrow> string \<Rightarrow> int \<Rightarrow> PerformanceIssue" where
  "function_complexity_issue fp lineno name func_length =
     \<lparr>severity = MEDIUM,
      rule = ''Function Complexity'',
      file_path = fp,
      line_number = lineno,
      message = ''Function '' @ [CHR 0x27] @ name @ [CHR 0x27] @ '' is very long (''
                @ str_int func_length @ '' lines)'',
      code_snippet = None,
      suggested_fix = Some ''Consider breaking into smaller functions'',
      auto_fixable = False,
      impact_description = ''Reduced readability, harder to test and optimize''\<rparr>"

definition for_nesting_issue :: "string \<Rightarrow> int \<Rightarrow> int \<Rightarrow> PerformanceIssue" where
  "for_nesting_issue fp lineno n =
     \<lparr>severity = (if n \<ge> 4 then HIGH else MEDIUM),
      rule = ''Deeply Nested Loops'',
      file_path = fp,
      line_number = lineno,
      message = ''Found '' @ str_int n @ ''-level nested loops (likely O(n^'' @ str_int n @ ''))'',
      code_snippet = None,
      suggested_fix = Some ''Refactor to reduce nesting or use vectorized operations'',
      auto_fixable = False,
      impact_description = ''Algorithm complexity is O(n^'' @ str_int n
                @ ''), exponential performance degradation''\<rparr>"

definition while_nesting_issue :: "string \<Rightarrow> int \<Rightarrow> int \<Rightarrow> PerformanceIssue" where
  "while_nesting_issue fp lineno n =
     \<lparr>severity = MEDIUM,
      rule = ''Deeply Nested Loops'',
      file_path = fp,
      line_number = lineno,
      message = ''Found '' @ str_int n @ ''-level nested loops'',
      code_snippet = None,
      suggested_fix = Some ''Consider refactoring to reduce complexity'',
      auto_fixable = False,
      impact_description = ''Complexity potentially O(n^'' @ str_int n @ '')''\<rparr>"

text \<open>\<open>visit_FunctionDef\<close> up to its \<open>generic_visit\<close>.\<close>

definition aca_enter_function :: "string \<Rightarrow> node \<Rightarrow> int \<Rightarrow> string \<Rightarrow> node list
    \<Rightarrow> AlgorithmComplexityAnalyzer \<Rightarrow> AlgorithmComplexityAnalyzer" where
  "aca_enter_function fp nd lineno name body s =
     (let s1 = s\<lparr>current_function := Some nd, nested_loops := 0, max_nesting := 0\<rparr>;
          func_length = int (length body)
      in if func_length > 100
         then s1\<lparr>aca_issues := aca_issues s1 @ [function_complexity_issue fp lineno name func_length]\<rparr>
         else s1)"

text \<open>\<open>visit_For\<close> and \<open>visit_While\<close> up to their \<open>generic_visit\<close>.\<close>

definition aca_enter_for :: "string \<Rightarrow> int \<Rightarrow> AlgorithmComplexityAnalyzer \<Rightarrow> AlgorithmComplexityAnalyzer" where
  "aca_enter_for fp lineno s =
     (let s1 = s\<lparr>nested_loops := nested_loops s + 1\<rparr>;
          s2 = s1\<lparr>max_nesting := max (max_nesting s1) (nested_loops s1)\<rparr>
      in if nested_loops s2 \<ge> 3
         then s2\<lparr>aca_issues := aca_issues s2 @ [for_nesting_issue fp lineno (nested_loops s2)]\<rparr>
         else s2)"

definition aca_enter_while :: "string \<Rightarrow> int \<Rightarrow> AlgorithmComplexityAnalyzer \<Rightarrow> AlgorithmComplexityAnalyzer" where
  "aca_enter_while fp lineno s =
     (let s1 = s\<lparr>nested_loops := nested_loops s + 1\<rparr>;
          s2 = s1\<lparr>max_nesting := max (max_nesting s1) (nested_loops s1)\<rparr>
      in if nested_loops s2 \<ge> 3
         then s2\<lparr>aca_issues := aca_issues s2 @ [while_nesting_issue fp lineno (nested_loops s2)]\<rparr>
         else s2)"

definition aca_exit_loop :: "AlgorithmComplexityAnalyzer \<Rightarrow> AlgorithmComplexityAnalyzer" where
  "aca_exit_loop s = s\<lparr>nested_loops := nested_loops s - 1\<rparr>"

fun aca_visit :: "string \<Rightarrow> node \<Rightarrow> AlgorithmComplexityAnalyzer \<Rightarrow> AlgorithmComplexityAnalyzer"
and aca_visit_list :: "string \<Rightarrow> node list \<Rightarrow> AlgorithmComplexityAnalyzer \<Rightarrow> AlgorithmComplexityAnalyzer" where
  "aca_visit fp (Name ident) s = s"
| "aca_visit fp (Attribute v attr) s = aca_visit fp v s"
| "aca_visit fp (Call lineno func args keywords) s =
     aca_visit_list fp keywords (aca_visit_list fp args (aca_visit fp func s))"
| "aca_visit fp (For lineno target iter body orelse) s =
     aca_exit_loop (aca_visit_list fp orelse (aca_visit_list fp body (aca_visit fp iter
       (aca_visit fp target (aca_enter_for fp lineno s)))))"
| "aca_visit fp (While lineno test body orelse) s =
     aca_exit_loop (aca_visit_list fp orelse (aca_visit_list fp body (aca_visit fp test
       (aca_enter_while fp lineno s))))"
| "aca_visit fp (FunctionDef lineno name args body rest) s =
     (aca_visit_list fp rest (aca_visit_list fp body (aca_visit_list fp args
       (aca_enter_function fp (FunctionDef lineno name args body rest) lineno name body s))))
     \<lparr>current_function := None\<rparr>"
| "aca_visit fp (AsyncFunctionDef lineno name args body rest) s =
     aca_visit_list fp rest (aca_visit_list fp body (aca_visit_list fp args s))"
| "aca_visit fp (Other children) s = aca_visit_list fp children s"
| "aca_visit_list fp [] s = s"
| "aca_visit_list fp (n # ns) s = aca_visit_list fp ns (aca_visit fp n s)"

subsection \<open>AsyncAwaitValidator\<close>

record AsyncAwaitValidator =
  aav_issues :: "PerformanceIssue list"
  in_async_function :: bool

definition AsyncAwaitValidator_init :: AsyncAwaitValidator where
  "AsyncAwaitValidator_init = \<lparr>aav_issues = [], in_async_function = False\<rparr>"

definition async_issue :: "string \<Rightarrow> int \<Rightarrow> string \<Rightarrow> PerformanceIssue" where
  "async_issue fp lineno call_name =
     \<lparr>severity = HIGH,
      rule = ''Async Pattern'',
      file_path = fp,
      line_number = lineno,
      message = ''Potential missing await on async function '' @ [CHR 0x27] @ call_name @ [CHR 0x27],
      code_snippet = None,
      suggested_fix = Some (''Add '' @ [CHR 0x27] @ ''await'' @ [CHR 0x27] @ '' before the function call''),
      auto_fixable = False,
      impact_description = ''Async function not awaited, blocks event loop''\<rparr>"

definition aav_check_call :: "string \<Rightarrow> int \<Rightarrow> node \<Rightarrow> AsyncAwaitValidator \<Rightarrow> AsyncAwaitValidator" where
  "aav_check_call fp lineno func s =
     (let call_name = get_call_name func in
      if in_async_function s \<and> call_name \<in> set [''sleep'', ''wait'', ''fetch'', ''query'', ''execute'']
      then s\<lparr>aav_issues := aav_issues s @ [async_issue fp lineno call_name]\<rparr>
      else s)"

fun aav_visit :: "string \<Rightarrow> node \<Rightarrow> AsyncAwaitValidator \<Rightarrow> AsyncAwaitValidator"
and aav_visit_list :: "string \<Rightarrow> node list \<Rightarrow> AsyncAwaitValidator \<Rightarrow> AsyncAwaitValidator" where
  "aav_visit fp (Name ident) s = s"
| "aav_visit fp (Attribute v attr) s = aav_visit fp v s"
| "aav_visit fp (Call lineno func args keywords) s =
     aav_visit_list fp keywords (aav_visit_list fp args (aav_visit fp func
       (aav_check_call fp lineno func s)))"
| "aav_visit fp (For lineno target iter body orelse) s =
     aav_visit_list fp orelse (aav_visit_list fp body (aav_visit fp iter (aav_visit fp target s)))"
| "aav_visit fp (While lineno test body orelse) s =
     aav_visit_list fp orelse (aav_visit_list fp body (aav_visit fp test s))"
| "aav_visit fp (FunctionDef lineno name args body rest) s =
     aav_visit_list fp rest (aav_visit_list fp body (aav_visit_list fp args s))"
| "aav_visit fp (AsyncFunctionDef lineno name args body rest) s =
     (aav_visit_list fp rest (aav_visit_list fp body (aav_visit_list fp args
       (s\<lparr>in_async_function := True\<rparr>))))\<lparr>in_async_function := False\<rparr>"
| "aav_visit fp (Other children) s = aav_visit_list fp children s"
| "aav_visit_list fp [] s = s"
| "aav_visit_list fp (n # ns) s = aav_visit_list fp ns (aav_visit fp n s)"

section \<open>The synthetic files of the loop-depth property\<close>

text \<open>
  A file of \<open>k\<close> uniformly nested loops is given by the \<open>k\<close> loop headers, outermost
  first, and the statement in the innermost body. Each loop's body is exactly the next
  loop (or, for the last one, the statement).
\<close>

datatype loop_header =
    ForH int node node "node list"
  | WhileH int node "node list"

fun wrap_loop :: "loop_header \<Rightarrow> node \<Rightarrow> node" where
  "wrap_loop (ForH lineno target iter orelse) inner = For lineno target iter [inner] orelse"
| "wrap_loop (WhileH lineno test orelse) inner = While lineno test [inner] orelse"

definition nested_loops_file :: "loop_header list \<Rightarrow> node \<Rightarrow> node" where
  "nested_loops_file hs stmt = Other [foldr wrap_loop hs stmt]"

text \<open>No loop statement occurs in the tree.\<close>

fun loop_free :: "node \<Rightarrow> bool"
and loop_free_list :: "node list \<Rightarrow> bool" where
  "loop_free (Name ident) = True"
| "loop_free (Attribute v attr) = loop_free v"
| "loop_free (Call lineno func args keywords) =
     (loop_free func \<and> loop_free_list args \<and> loop_free_list keywords)"
| "loop_free (For lineno target iter body orelse) = False"
| "loop_free (While lineno test body orelse) = False"
| "loop_free (FunctionDef lineno name args body rest) =
     (loop_free_list args \<and> loop_free_list body \<and> loop_free_list rest)"
| "loop_free (AsyncFunctionDef lineno name args body rest) =
     (loop_free_list args \<and> loop_free_list body \<and> loop_free_list rest)"
| "loop_free (Other children) = loop_free_list children"
| "loop_free_list [] = True"
| "loop_free_list (n # ns) = (loop_free n \<and> loop_free_list ns)"

text \<open>
  The calls in the tree whose name matches a database-call pattern, with their lines,
  in the order of the traversal.
\<close>

fun db_calls :: "node \<Rightarrow> (int \<times> string) list"
and db_calls_list :: "node list \<Rightarrow> (int \<times> string) list" where
  "db_calls (Name ident) = []"
| "db_calls (Attribute v attr) = db_calls v"
| "db_calls (Call lineno func args keywords) =
     (if any_in db_patterns (lower (get_call_name func)) then [(lineno, get_call_name func)] else [])
     @ db_calls func @ db_calls_list args @ db_calls_list keywords"
| "db_calls (For lineno target iter body orelse) =
     db_calls target @ db_calls iter @ db_calls_list body @ db_calls_list orelse"
| "db_calls (While lineno test body orelse) =
     db_calls test @ db_calls_list body @ db_calls_list orelse"
| "db_calls (FunctionDef lineno name args body rest) =
     db_calls_list args @ db_calls_list body @ db_calls_list rest"
| "db_calls (AsyncFunctionDef lineno name args body rest) =
     db_calls_list args @ db_calls_list body @ db_calls_list rest"
| "db_calls (Other children) = db_calls_list children"
| "db_calls_list [] = []"
| "db_calls_list (n # ns) = db_calls n @ db_calls_list ns"

text \<open>A loop header brings no loop and no database call of its own.\<close>

fun plain_header :: "loop_header \<Rightarrow> bool" where
  "plain_header (ForH lineno target iter orelse) =
     (loop_free target \<and> loop_free iter \<and> loop_free_list orelse
      \<and> db_calls target = [] \<and> db_calls iter = [] \<and> db_calls_list orelse = [])"
| "plain_header (WhileH lineno test orelse) =
     (loop_free test \<and> loop_free_list orelse \<and> db_calls test = [] \<and> db_calls_list orelse = [])"

text \<open>No (synchronous) function definition occurs in the tree.\<close>

fun def_free :: "node \<Rightarrow> bool"
and def_free_list :: "node list \<Rightarrow> bool" where
  "def_free (Name ident) = True"
| "def_free (Attribute v attr) = def_free v"
| "def_free (Call lineno func args keywords) =
     (def_free func \<and> def_free_list args \<and> def_free_list keywords)"
| "def_free (For lineno target iter body orelse) =
     (def_free target \<and> def_free iter \<and> def_free_list body \<and> def_free_list orelse)"
| "def_free (While lineno test body orelse) =
     (def_free test \<and> def_free_list body \<and> def_free_list orelse)"
| "def_free (FunctionDef lineno name args body rest) = False"
| "def_free (AsyncFunctionDef lineno name args body rest) =
     (def_free_list args \<and> def_free_list body \<and> def_free_list rest)"
| "def_free (Other children) = def_free_list children"
| "def_free_list [] = True"
| "def_free_list (n # ns) = (def_free n \<and> def_free_list ns)"

text \<open>
  What \<open>QueryPatternDetector\<close> appends for a list of matching calls met at one loop
  depth.
\<close>

definition qpd_emit :: "string \<Rightarrow> QueryPatternDetector \<Rightarrow> (int \<times> string) list \<Rightarrow> QueryPatternDetector" where
  "qpd_emit fp s cs =
     s\<lparr>qpd_issues := qpd_issues s @
        (if in_loop s then map (\<lambda>(l, n). n_plus_1_issue fp l n (loop_depth s)) cs else [])\<rparr>"

section \<open>Text utilities\<close>

text \<open>\<open>content.split('\n')\<close>: the empty string gives one empty line.\<close>

fun split_lines :: "string \<Rightarrow> string list" where
  "split_lines [] = [[]]"
| "split_lines (c # cs) =
     (if c = CHR 0x0A then [] # split_lines cs
      else (case split_lines cs of [] \<Rightarrow> [[c]] | l # ls \<Rightarrow> (c # l) # ls))"

text \<open>\<open>'\n'.join(ls)\<close>\<close>

fun join_lines :: "string list \<Rightarrow> string" where
  "join_lines [] = []"
| "join_lines [l] = l"
| "join_lines (l # ls) = l @ CHR 0x0A # join_lines ls"

text \<open>
  The slice \<open>xs[a:b]\<close> for bounds that are not negative. A lower bound written
  \<open>max(0, i - n)\<close> in the source is \<open>i - n\<close> on \<open>nat\<close>.
\<close>

definition slice :: "nat \<Rightarrow> nat \<Rightarrow> 'a list \<Rightarrow> 'a list" where
  "slice a b xs = take (b - a) (drop a xs)"

definition is_space :: "char \<Rightarrow> bool" where
  "is_space c = (c \<in> set [CHR 0x09, CHR 0x0A, CHR 0x0B, CHR 0x0C, CHR 0x0D,
                            CHR 0x1C, CHR 0x1D, CHR 0x1E, CHR 0x1F, CHR 0x20])"

definition is_digit :: "char \<Rightarrow> bool" where
  "is_digit c = (c \<in> set ''0123456789'')"

definition is_alnum :: "char \<Rightarrow> bool" where
  "is_alnum c = (c \<in> set ''abcdefghijklmnopqrstuvwxyzABCDEFGHIJKLMNOPQRSTUVWXYZ0123456789'')"

definition is_word :: "char \<Rightarrow> bool" where
  "is_word c = (is_alnum c \<or> c = CHR ''_'')"

definition lstrip :: "string \<Rightarrow> string" where
  "lstrip s = dropWhile is_space s"

definition strip :: "string \<Rightarrow> string" where
  "strip s = rev (dropWhile is_space (rev (dropWhile is_space s)))"

definition startswith :: "string \<Rightarrow> string \<Rightarrow> bool" where
  "startswith s p = prefix p s"

text \<open>The single and the double quote, for building messages and patterns.\<close>

definition sq :: string where "sq = [CHR 0x27]"
definition dq :: string where "dq = [CHR 0x22]"

section \<open>Regular expressions\<close>

text \<open>
  The patterns of the rules use literals, character classes, concatenation, alternation
  and greedy repetition. \<open>ends r s\<close> lists the rests of \<open>s\<close> after each way \<open>r\<close> can
  match at the start of \<open>s\<close>, in the order in which a backtracking matcher tries them:
  the alternatives of \<open>|\<close> left to right, a greedy repetition longest first. An iteration
  of a repetition that consumes nothing is not repeated.
\<close>

datatype regex =
    Eps
  | Cls "char \<Rightarrow> bool"
  | Seq regex regex
  | Alt regex regex
  | Star regex

function (sequential) ends :: "regex \<Rightarrow> string \<Rightarrow> string list" where
  "ends Eps s = [s]"
| "ends (Cls P) [] = []"
| "ends (Cls P) (c # cs) = (if P c then [cs] else [])"
| "ends (Seq r1 r2) s = concat (map (ends r2) (ends r1 s))"
| "ends (Alt r1 r2) s = ends r1 s @ ends r2 s"
| "ends (Star r) s =
     concat (map (ends (Star r)) (filter (\<lambda>t. length t < length s) (ends r s))) @ [s]"
  by pat_completeness auto
termination
  by (relation "measures [\<lambda>(r, s). size r, \<lambda>(r, s). length s]") auto

definition chr :: "char \<Rightarrow> regex" where
  "chr c = Cls (\<lambda>x. x = c)"

definition lit :: "string \<Rightarrow> regex" where
  "lit s = foldr (\<lambda>c. Seq (chr c)) s Eps"

text \<open>A literal under \<open>re.IGNORECASE\<close>.\<close>

definition lit_i :: "string \<Rightarrow> regex" where
  "lit_i s = foldr (\<lambda>c. Seq (Cls (\<lambda>x. lower_char x = lower_char c))) s Eps"

definition seqs :: "regex list \<Rightarrow> regex" where
  "seqs rs = foldr Seq rs Eps"

definition plus :: "regex \<Rightarrow> regex" where
  "plus r = Seq r (Star r)"

text \<open>\<open>r{n,}\<close>\<close>

fun at_least :: "nat \<Rightarrow> regex \<Rightarrow> regex" where
  "at_least 0 r = Star r"
| "at_least (Suc n) r = Seq r (at_least n r)"

text \<open>\<open>\s\<close>, \<open>\w\<close>, \<open>\d\<close> and \<open>.\<close>\<close>

definition re_space :: regex where "re_space = Cls is_space"
definition re_word :: regex where "re_word = Cls is_word"
definition re_digit :: regex where "re_digit = Cls is_digit"
definition re_any :: regex where "re_any = Cls (\<lambda>c. c \<noteq> CHR 0x0A)"

text \<open>\<open>re.search(r, s)\<close> finds a match: at the first start from the left where \<open>r\<close> matches.\<close>

fun re_search :: "regex \<Rightarrow> string \<Rightarrow> bool" where
  "re_search r [] = (ends r [] \<noteq> [])"
| "re_search r (c # cs) = (ends r (c # cs) \<noteq> [] \<or> re_search r cs)"

section \<open>Text rules of the performance validator\<close>

subsection \<open>MemoryLeakDetector\<close>

text \<open>\<^verbatim>\<open>open\s*\(\<close>\<close>

definition open_call_re :: regex where
  "open_call_re = seqs [lit ''open'', Star re_space, chr CHR ''('']"

definition resource_issue :: "string \<Rightarrow> nat \<Rightarrow> string \<Rightarrow> PerformanceIssue" where
  "resource_issue fp i line =
     \<lparr>severity = HIGH,
      rule = ''Resource Management'',
      file_path = fp,
      line_number = int i + 1,
      message = ''File opened without '' @ sq @ ''with'' @ sq @ '' statement (potential resource leak)'',
      code_snippet = Some (strip line),
      suggested_fix = Some ''Use: with open(...) as f:'',
      auto_fixable = True,
      impact_description = ''File handle not properly closed, resource exhaustion over time''\<rparr>"

text \<open>
  The loops over \<open>enumerate(self.lines)\<close> run over the indices \<open>0, 1, \<dots>\<close>; each
  index contributes the issues that its pass through the loop body appends.
\<close>

definition check_file_handles_at :: "string \<Rightarrow> string list \<Rightarrow> nat \<Rightarrow> PerformanceIssue list" where
  "check_file_handles_at fp lines i =
     (let line = lines ! i in
      if re_search open_call_re line \<and> \<not> sublist ''with'' line then
        (if i > 0 \<and> \<not> sublist ''with'' (lines ! (i - 1)) then [resource_issue fp i line] else [])
      else [])"

definition check_file_handles :: "string \<Rightarrow> string list \<Rightarrow> PerformanceIssue list" where
  "check_file_handles fp lines = concat (map (check_file_handles_at fp lines) [0..<length lines])"

definition unbounded_issue :: "string \<Rightarrow> nat \<Rightarrow> string \<Rightarrow> PerformanceIssue" where
  "unbounded_issue fp i line =
     \<lparr>severity = CRITICAL,
      rule = ''Unbounded Collection'',
      file_path = fp,
      line_number = int i + 1,
      message = ''Unbounded append in infinite loop detected (memory exhaustion risk)'',
      code_snippet = Some (strip line),
      suggested_fix = Some ''Add maximum size check or use collections.deque with maxlen'',
      auto_fixable = False,
      impact_description = ''List grows unbounded until memory exhaustion''\<rparr>"

definition check_unbounded_collections_at :: "string \<Rightarrow> string list \<Rightarrow> nat \<Rightarrow> PerformanceIssue list" where
  "check_unbounded_collections_at fp lines i =
     (let line = lines ! i in
      if sublist ''.append('' line \<and> sublist ''while True'' (join_lines (slice (i - 10) i lines))
      then [unbounded_issue fp i line] else [])"

definition check_unbounded_collections :: "string \<Rightarrow> string list \<Rightarrow> PerformanceIssue list" where
  "check_unbounded_collections fp lines =
     concat (map (check_unbounded_collections_at fp lines) [0..<length lines])"

definition circular_issue :: "string \<Rightarrow> nat \<Rightarrow> string \<Rightarrow> PerformanceIssue" where
  "circular_issue fp i line =
     \<lparr>severity = LOW,
      rule = ''Potential Circular Reference'',
      file_path = fp,
      line_number = int i + 1,
      message = ''Potential circular reference pattern detected'',
      code_snippet = Some (strip line),
      suggested_fix = Some ''Use weak references (weakref module) or redesign object graph'',
      auto_fixable = False,
      impact_description = ''Objects may not be garbage collected, memory leak over time''\<rparr>"

definition circular_at :: "string list \<Rightarrow> nat \<Rightarrow> bool" where
  "circular_at lines i =
     (let line = lines ! i in
      sublist ''self.'' line \<and> sublist ''='' line \<and>
      (let context = join_lines (slice (i - 5) (min (length lines) (i + 5)) lines)
       in sublist ''self.'' context \<and> count_list context CHR ''='' > 3))"

text \<open>The loop leaves at its first issue (\<open>break\<close>), so it reports the first such line only.\<close>

definition check_circular_references :: "string \<Rightarrow> string list \<Rightarrow> PerformanceIssue list" where
  "check_circular_references fp lines =
     (case find (circular_at lines) [0..<length lines] of
        None \<Rightarrow> []
      | Some i \<Rightarrow> [circular_issue fp i (lines ! i)])"

definition MemoryLeakDetector_analyze :: "string \<Rightarrow> string \<Rightarrow> PerformanceIssue list" where
  "MemoryLeakDetector_analyze fp content =
     (let lines = split_lines content in
      check_file_handles fp lines @ check_unbounded_collections fp lines
      @ check_circular_references fp lines)"

subsection \<open>LatencyValidator\<close>

text \<open>
  \<^verbatim>\<open>requests\.(get|post|put|delete)\<close>, \<^verbatim>\<open>time\.sleep\<close>,
  \<^verbatim>\<open>socket\.(socket|connect)\<close>, \<^verbatim>\<open>subprocess\.run|os\.system\<close>
\<close>

definition blocking_patterns :: "(regex \<times> string) list" where
  "blocking_patterns =
     [(Seq (lit ''requests.'') (Alt (lit ''get'') (Alt (lit ''post'') (Alt (lit ''put'') (lit ''delete'')))),
       ''HTTP request''),
      (lit ''time.sleep'', ''Sleep call''),
      (Seq (lit ''socket.'') (Alt (lit ''socket'') (lit ''connect'')), ''Socket operation''),
      (Alt (lit ''subprocess.run'') (lit ''os.system''), ''Subprocess execution'')]"

definition blocking_issue :: "string \<Rightarrow> nat \<Rightarrow> string \<Rightarrow> string \<Rightarrow> PerformanceIssue" where
  "blocking_issue fp i line operation_name =
     \<lparr>severity = HIGH,
      rule = ''Blocking Operation in Event Handler'',
      file_path = fp,
      line_number = int i + 1,
      message = ''Blocking '' @ operation_name @ '' in event handler (violates <5s latency)'',
      code_snippet = Some (strip line),
      suggested_fix = Some ''Use async version (aiohttp, asyncio, etc) or move to background task'',
      auto_fixable = False,
      impact_description = ''Blocks event processing loop, increases latency for all events''\<rparr>"

definition check_blocking_operations_at :: "string \<Rightarrow> string list \<Rightarrow> nat \<Rightarrow> PerformanceIssue list" where
  "check_blocking_operations_at fp lines i =
     (let line = lines ! i;
          context = join_lines (slice (i - 20) i lines)
      in if sublist ''on_event'' context \<or> sublist ''handle_event'' context
            \<or> sublist ''process_event'' context
         then concat (map (\<lambda>(pattern, operation_name).
                if re_search pattern line then [blocking_issue fp i line operation_name] else [])
              blocking_patterns)
         else [])"

definition check_blocking_operations :: "string \<Rightarrow> string list \<Rightarrow> PerformanceIssue list" where
  "check_blocking_operations fp lines =
     concat (map (check_blocking_operations_at fp lines) [0..<length lines])"

text \<open>\<^verbatim>\<open>for\s+\w+\s+in\s+range\s*\(\s*\d{6,}\<close>\<close>

definition long_loop_re :: regex where
  "long_loop_re =
     seqs [lit ''for'', plus re_space, plus re_word, plus re_space, lit ''in'', plus re_space,
           lit ''range'', Star re_space, chr CHR ''('', Star re_space, at_least 6 re_digit]"

definition long_loop_issue :: "string \<Rightarrow> nat \<Rightarrow> string \<Rightarrow> PerformanceIssue" where
  "long_loop_issue fp i line =
     \<lparr>severity = MEDIUM,
      rule = ''Potentially Long Loop'',
      file_path = fp,
      line_number = int i + 1,
      message = ''Loop with very large iteration count detected'',
      code_snippet = Some (strip line),
      suggested_fix = Some ''Consider using vectorized operations (NumPy) or batch processing'',
      auto_fixable = False,
      impact_description = ''Long computation blocks event processing''\<rparr>"

definition check_long_running_operations_at :: "string \<Rightarrow> string list \<Rightarrow> nat \<Rightarrow> PerformanceIssue list" where
  "check_long_running_operations_at fp lines i =
     (let line = lines ! i in
      if re_search long_loop_re line then [long_loop_issue fp i line] else [])"

definition check_long_running_operations :: "string \<Rightarrow> string list \<Rightarrow> PerformanceIssue list" where
  "check_long_running_operations fp lines =
     concat (map (check_long_running_operations_at fp lines) [0..<length lines])"

definition LatencyValidator_analyze :: "string \<Rightarrow> string \<Rightarrow> PerformanceIssue list" where
  "LatencyValidator_analyze fp content =
     (let lines = split_lines content in
      check_blocking_operations fp lines @ check_long_running_operations fp lines)"

subsection \<open>PerformanceValidator\<close>

text \<open>
  \<open>ast.parse\<close> is the standard library's. Its outcome on the content is an argument of
  the model: the tree, or the exception it raised. \<open>validate\<close> catches \<open>SyntaxError\<close>
  and nothing else.
\<close>

datatype py_exception = SyntaxError | OtherException

definition validate :: "string \<Rightarrow> py_exception + node \<Rightarrow> string \<Rightarrow> py_exception + PerformanceIssue list" where
  "validate fp parsed content =
     (let text_issues = MemoryLeakDetector_analyze fp content @ LatencyValidator_analyze fp content
      in case parsed of
           Inr tree \<Rightarrow>
             Inr (qpd_issues (qpd_visit fp tree QueryPatternDetector_init)
                  @ aca_issues (aca_visit fp tree AlgorithmComplexityAnalyzer_init)
                  @ aav_issues (aav_visit fp tree AsyncAwaitValidator_init)
                  @ text_issues)
         | Inl SyntaxError \<Rightarrow> Inr text_issues
         | Inl e \<Rightarrow> Inl e)"

text \<open>The rule names of the text-based checks.\<close>

definition text_rule_names :: "string set" where
  "text_rule_names =
     {''Resource Management'', ''Unbounded Collection'', ''Potential Circular Reference'',
      ''Blocking Operation in Event Handler'', ''Potentially Long Loop''}"

section \<open>Security rules: hardcoded API keys\<close>

record SecurityIssue =
  severity :: string
  rule :: string
  file_path :: string
  line_number :: int
  message :: string
  suggested_fix :: "string option"
  auto_fixable :: bool

text \<open>
  A pattern of \<open>API_KEY_PATTERNS\<close> either has no group, or is a prefix, one capturing
  group and a suffix. \<open>match_at p s\<close> is the match a backtracking matcher finds at the
  start of \<open>s\<close>: the text that \<open>match.group(1) if match.groups() else match.group(0)\<close>
  gives, and the rest of \<open>s\<close> after the match.
\<close>

datatype pattern = NoGroup regex | Group1 regex regex regex

fun match_at :: "pattern \<Rightarrow> string \<Rightarrow> (string \<times> string) option" where
  "match_at (NoGroup r) s =
     (case ends r s of [] \<Rightarrow> None | t # _ \<Rightarrow> Some (take (length s - length t) s, t))"
| "match_at (Group1 pre grp post) s =
     (case concat (map (\<lambda>t1. concat (map (\<lambda>t2. map (\<lambda>t3. (take (length t1 - length t2) t1, t3))
                                                   (ends post t2))
                                       (ends grp t1)))
                       (ends pre s)) of
        [] \<Rightarrow> None
      | m # _ \<Rightarrow> Some m)"

text \<open>
  \<open>re.finditer\<close>: the matches from left to right, each search starting where the last
  match ended. None of the patterns below matches the empty string; were a match empty,
  the scan moves on by one character.
\<close>

function finditer :: "pattern \<Rightarrow> string \<Rightarrow> string list" where
  "finditer p [] = (case match_at p [] of None \<Rightarrow> [] | Some (v, t) \<Rightarrow> [v])"
| "finditer p (c # cs) =
     (case match_at p (c # cs) of
        None \<Rightarrow> finditer p cs
      | Some (v, t) \<Rightarrow> v # (if length t < length (c # cs) then finditer p t else finditer p cs))"
  by pat_completeness auto
termination
  by (relation "measure (\<lambda>(p, s). length s)") auto

definition re_quote :: regex where
  "re_quote = Cls (\<lambda>c. c = CHR 0x22 \<or> c = CHR 0x27)"

definition re_not_quote :: regex where
  "re_not_quote = Cls (\<lambda>c. c \<noteq> CHR 0x22 \<and> c \<noteq> CHR 0x27)"

text \<open>\<^verbatim>\<open>NAME\s*=\s*["\']([^"\']+)["\']\<close> for a name pattern \<open>NAME\<close>\<close>

definition assigned_literal :: "regex \<Rightarrow> pattern" where
  "assigned_literal name_re =
     Group1 (seqs [name_re, Star re_space, chr CHR ''='', Star re_space, re_quote])
            (plus re_not_quote)
            re_quote"

text \<open>The dictionary \<open>API_KEY_PATTERNS\<close>, in its order of insertion.\<close>

definition API_KEY_PATTERNS :: "(string \<times> pattern) list" where
  "API_KEY_PATTERNS =
     [(''COINBASE_API_KEY'', assigned_literal (lit ''COINBASE_API_KEY'')),
      (''BINANCE_API_KEY'', assigned_literal (lit ''BINANCE_API_KEY'')),
      (''KRAKEN_API_KEY'', assigned_literal (lit ''KRAKEN_API_KEY'')),
      (''ANTHROPIC_API_KEY'', assigned_literal (lit ''ANTHROPIC_API_KEY'')),
      (''POLYGON_API_KEY'', assigned_literal (lit ''POLYGON_API_KEY'')),
      (''SUPABASE_KEY'', assigned_literal (seqs [lit ''SUPABASE_'', Star re_any, lit ''_KEY''])),
      (''aws_access_key'', assigned_literal (lit ''aws_access_key_id'')),
      (''generic_api_key'', NoGroup (seqs [re_quote, at_least 40 (Cls is_alnum), re_quote]))]"

text \<open>\<open>_fix_api_key_exposure\<close>\<close>

definition fix_api_key_exposure :: "string \<Rightarrow> string \<Rightarrow> string option" where
  "fix_api_key_exposure line key_name =
     (if sublist ''='' line then
        (let indent = length line - length (lstrip line);
             pad = concat (replicate (indent div 4) ''    '');
             pad1 = concat (replicate (indent div 4 + 1) ''    '')
         in Some (pad @ key_name @ '' = os.getenv('' @ sq @ key_name @ sq @ '')'' @ [CHR 0x0A]
                  @ pad @ ''if not '' @ key_name @ '':'' @ [CHR 0x0A]
                  @ pad1 @ ''raise ValueError(f'' @ sq @ key_name
                  @ '' environment variable not set'' @ sq @ '')''))
      else None)"

definition api_key_issue :: "string \<Rightarrow> nat \<Rightarrow> string \<Rightarrow> string \<Rightarrow> string \<Rightarrow> SecurityIssue" where
  "api_key_issue fp i line key_name api_value =
     \<lparr>severity = ''critical'',
      rule = ''api_key_exposure'',
      file_path = fp,
      line_number = int i,
      message = ''Hardcoded '' @ key_name @ '' detected: '' @ take 20 api_value @ ''...'',
      suggested_fix = fix_api_key_exposure line key_name,
      auto_fixable = True\<rparr>"

text \<open>The body of the loop over \<open>enumerate(lines, 1)\<close> for the line with number \<open>i\<close>.\<close>

definition api_key_exposure_at :: "string \<Rightarrow> string list \<Rightarrow> nat \<Rightarrow> SecurityIssue list" where
  "api_key_exposure_at fp lines i =
     (let line = lines ! (i - 1) in
      if startswith (strip line) ''#'' \<or> sublist ''.env'' fp then []
      else concat (map (\<lambda>(key_name, pattern).
             concat (map (\<lambda>api_value.
                 if sublist ''os.getenv'' line \<or> sublist ''environ'' line \<or> sublist ''${'' line
                 then [] else [api_key_issue fp i line key_name api_value])
               (finditer pattern line)))
           API_KEY_PATTERNS))"

definition validate_api_key_exposure :: "string \<Rightarrow> string \<Rightarrow> SecurityIssue list" where
  "validate_api_key_exposure fp content =
     (let lines = split_lines content in
      concat (map (api_key_exposure_at fp lines) [1..<length lines + 1]))"

text \<open>The lines of the secret round-trip property, and the same with a listed key name.\<close>

definition api_key_line :: string where
  "api_key_line = ''API_KEY = '' @ dq @ ''sk-abcdef1234567890abcdef1234567890'' @ dq"

definition api_key_getenv_line :: string where
  "api_key_getenv_line = ''API_KEY = os.getenv('' @ sq @ ''API_KEY'' @ sq @ '')''"

definition anthropic_key_line :: string where
  "anthropic_key_line = ''ANTHROPIC_API_KEY = '' @ dq @ ''sk-abcdef1234567890abcdef1234567890'' @ dq"

definition anthropic_getenv_line :: string where
  "anthropic_getenv_line =
     ''ANTHROPIC_API_KEY = os.getenv('' @ sq @ ''ANTHROPIC_API_KEY'' @ sq @ '')''"

text \<open>The matches of each pattern of the table on a line.\<close>

definition key_matches :: "string \<Rightarrow> (string \<times> string list) list" where
  "key_matches line = map (\<lambda>(key_name, pattern). (key_name, finditer pattern line)) API_KEY_PATTERNS"

section \<open>Tax rules: long-term capital gains\<close>

record TaxIssue =
  severity :: string
  rule :: string
  file_path :: string
  line_number :: int
  message :: string
  test_case :: "string option"
  suggested_fix :: "string option"
  auto_fixable :: bool

definition ltcg_boundary_issue :: "string \<Rightarrow> nat \<Rightarrow> TaxIssue" where
  "ltcg_boundary_issue fp i =
     \<lparr>severity = ''high'',
      rule = ''ltcg_holding_period_boundary'',
      file_path = fp,
      line_number = int i,
      message = ''LTCG requires >365 days (more than 1 year), not >= 365'',
      test_case = Some ''365 days held = short-term. 366 days held = long-term'',
      suggested_fix = Some (''Use: if holding_days > 365: return '' @ dq @ ''LTCG'' @ dq),
      auto_fixable = True\<rparr>"

definition ltcg_rate_issue :: "string \<Rightarrow> nat \<Rightarrow> TaxIssue" where
  "ltcg_rate_issue fp i =
     \<lparr>severity = ''high'',
      rule = ''ltcg_tax_rate_incorrect'',
      file_path = fp,
      line_number = int i,
      message = ''LTCG tax rate for high earners should be 20% (0.20)'',
      test_case = Some ''LTCG tax = capital_gain * 0.20'',
      suggested_fix = Some ''ltcg_rate = 0.20'',
      auto_fixable = False\<rparr>"

text \<open>The body of the loop over \<open>enumerate(lines, 1)\<close> for the line with number \<open>i\<close>.\<close>

definition ltcg_classification_at :: "string \<Rightarrow> string list \<Rightarrow> nat \<Rightarrow> TaxIssue list" where
  "ltcg_classification_at fp lines i =
     (let line = lines ! (i - 1) in
      (if sublist ''holding'' (lower line) \<and> (sublist ''365'' line \<or> sublist ''year'' (lower line))
       then (if sublist ''>= 365'' line \<or> \<not> sublist ''> 365'' line
             then [ltcg_boundary_issue fp i] else [])
       else [])
      @
      (if sublist ''tax_rate'' (lower line) \<and> sublist ''ltcg'' (lower line)
       then (if \<not> sublist ''0.20'' line \<and> \<not> sublist ''20%'' line \<and> \<not> sublist ''20'' line
             then [ltcg_rate_issue fp i] else [])
       else []))"

definition validate_ltcg_classification :: "string \<Rightarrow> string \<Rightarrow> TaxIssue list" where
  "validate_ltcg_classification fp content =
     (let lines = split_lines content in
      concat (map (ltcg_classification_at fp lines) [1..<length lines + 1]))"

text \<open>One-line files with the comparison written in four ways.\<close>

definition ltcg_non_strict_file :: string where
  "ltcg_non_strict_file = ''if holding_days >= 365:''"

definition ltcg_strict_file :: string where
  "ltcg_strict_file = ''if holding_days > 365:''"

definition ltcg_strict_no_space_file :: string where
  "ltcg_strict_no_space_file = ''if holding_days>365:''"

definition ltcg_strict_reversed_file :: string where
  "ltcg_strict_reversed_file = ''if 365 < holding_days:''"

section \<open>Trading rules: Kelly criterion\<close>

record TradingIssue =
  severity :: Severity
  rule :: string
  file_path :: string
  line_number :: int
  message :: string
  code_snippet :: "string option"
  business_impact :: string
  suggested_fix :: "string option"
  auto_fixable :: bool
  test_cases :: "string list"
  confidence :: rat

text \<open>\<^verbatim>\<open>kelly|fraction|position_size\<close> under \<open>re.IGNORECASE\<close>\<close>

definition kelly_pattern :: regex where
  "kelly_pattern = Alt (lit_i ''kelly'') (Alt (lit_i ''fraction'') (lit_i ''position_size''))"

definition has_win_prob :: "string \<Rightarrow> bool" where
  "has_win_prob context =
     (sublist ''p'' context \<or> sublist ''win_probability'' context \<or> sublist ''win_prob'' context)"

definition has_lose_prob :: "string \<Rightarrow> bool" where
  "has_lose_prob context =
     (sublist ''q'' context \<or> sublist ''1-p'' context \<or> sublist ''lose_prob'' context)"

definition has_payoff_ratio :: "string \<Rightarrow> bool" where
  "has_payoff_ratio context =
     (sublist ''b'' context \<or> sublist ''payoff_ratio'' context \<or> sublist ''odds'' context)"

text \<open>\<open>'\n'.join(self.lines[max(0, i-3):min(len(self.lines), i+4)])\<close>\<close>

definition kelly_context :: "string list \<Rightarrow> nat \<Rightarrow> string" where
  "kelly_context lines i = join_lines (slice (i - 3) (min (length lines) (i + 4)) lines)"

definition kelly_formula_issue :: "string \<Rightarrow> nat \<Rightarrow> string \<Rightarrow> TradingIssue" where
  "kelly_formula_issue fp i context =
     \<lparr>severity = CRITICAL,
      rule = ''Kelly Criterion Formula'',
      file_path = fp,
      line_number = int i + 1,
      message = ''Kelly Criterion formula incomplete (missing win_prob, lose_prob, or payoff_ratio)'',
      code_snippet = Some (strip context),
      business_impact = ''Incorrect position sizing leads to excessive leverage or under-leveraging'',
      suggested_fix = Some ''Implement: f* = (win_prob * payoff_ratio - lose_prob) / payoff_ratio'',
      auto_fixable = False,
      test_cases = [''f*(p=0.6, b=2, q=0.4) = 0.2 (20% of portfolio)'',
                    ''f*(p=0.55, b=1, q=0.45) = 0.1 (10% of portfolio)'',
                    ''f*(p=0.5, b=1, q=0.5) = 0 (no position)''],
      confidence = 95 / 100\<rparr>"

definition kelly_missing_issue :: "string \<Rightarrow> TradingIssue" where
  "kelly_missing_issue fp =
     \<lparr>severity = HIGH,
      rule = ''Kelly Criterion Missing'',
      file_path = fp,
      line_number = 1,
      message = ''No Kelly Criterion implementation found for position sizing'',
      code_snippet = None,
      business_impact = ''Manual position sizing is suboptimal and risks over-leveraging'',
      suggested_fix = Some ''Implement Kelly Criterion calculator'',
      auto_fixable = False,
      test_cases = [],
      confidence = 8 / 10\<rparr>"

text \<open>
  The loop of \<open>_validate_kelly_formula\<close> over the remaining indices, with the flag
  \<open>found_kelly\<close>; it returns the issues it appended and the flag. After its first issue
  it leaves (\<open>break\<close>).
\<close>

fun kelly_formula_loop :: "string \<Rightarrow> string list \<Rightarrow> nat list \<Rightarrow> bool \<Rightarrow> TradingIssue list \<times> bool" where
  "kelly_formula_loop fp lines [] found_kelly = ([], found_kelly)"
| "kelly_formula_loop fp lines (i # rest) found_kelly =
     (if re_search kelly_pattern (lines ! i) then
        (let context = kelly_context lines i in
         if \<not> (has_win_prob context \<and> has_lose_prob context \<and> has_payoff_ratio context)
         then ([kelly_formula_issue fp i context], True)
         else kelly_formula_loop fp lines rest True)
      else kelly_formula_loop fp lines rest found_kelly)"

definition validate_kelly_formula :: "string \<Rightarrow> string list \<Rightarrow> TradingIssue list" where
  "validate_kelly_formula fp lines =
     (case kelly_formula_loop fp lines [0..<length lines] False of
        (issues, found_kelly) \<Rightarrow>
          issues @ (if \<not> found_kelly then [kelly_missing_issue fp] else []))"

text \<open>\<^verbatim>\<open>[\d.]+\s*\*.*kelly|kelly.*\*[\d.]+\<close> under \<open>re.IGNORECASE\<close>\<close>

definition re_digit_or_dot :: regex where
  "re_digit_or_dot = Cls (\<lambda>c. is_digit c \<or> c = CHR ''.'')"

definition kelly_scaled_re :: regex where
  "kelly_scaled_re =
     Alt (seqs [plus re_digit_or_dot, Star re_space, chr CHR ''*'', Star re_any, lit_i ''kelly''])
         (seqs [lit_i ''kelly'', Star re_any, chr CHR ''*'', plus re_digit_or_dot])"

text \<open>The arrow in two of the test cases is U+2192, here in UTF-8.\<close>

definition arrow :: string where
  "arrow = [CHR 0xE2, CHR 0x86, CHR 0x92]"

definition kelly_fraction_issue :: "string \<Rightarrow> nat \<Rightarrow> string \<Rightarrow> TradingIssue" where
  "kelly_fraction_issue fp i context =
     \<lparr>severity = HIGH,
      rule = ''Kelly Fraction Scaling'',
      file_path = fp,
      line_number = int i + 1,
      message = ''Kelly Criterion not scaled (using full Kelly is high-risk)'',
      code_snippet = Some (strip context),
      business_impact = ''Full Kelly causes high volatility and drawdown; recommend 0.25 Kelly'',
      suggested_fix = Some ''Scale Kelly: position_size = 0.25 * kelly_fraction'',
      auto_fixable = False,
      test_cases = [''Full Kelly: f*=0.2 '' @ arrow @ '' position_size=0.2 (20% per trade)'',
                    ''Scaled Kelly (0.25): position_size=0.05 (5% per trade)''],
      confidence = 85 / 100\<rparr>"

definition validate_kelly_fraction_at :: "string \<Rightarrow> string list \<Rightarrow> nat \<Rightarrow> TradingIssue list" where
  "validate_kelly_fraction_at fp lines i =
     (let line = lines ! i in
      if sublist ''kelly'' (lower line) \<and> sublist ''*'' line then
        (if \<not> re_search kelly_scaled_re line then
           (let context = join_lines (slice (i - 2) (min (length lines) (i + 3)) lines) in
            if sublist ''kelly'' (lower context) \<and> \<not> sublist ''0.'' context
            then [kelly_fraction_issue fp i context] else [])
         else [])
      else [])"

definition validate_kelly_fraction :: "string \<Rightarrow> string list \<Rightarrow> TradingIssue list" where
  "validate_kelly_fraction fp lines =
     concat (map (validate_kelly_fraction_at fp lines) [0..<length lines])"

definition kelly_div_zero_issue :: "string \<Rightarrow> nat \<Rightarrow> string \<Rightarrow> TradingIssue" where
  "kelly_div_zero_issue fp i context =
     \<lparr>severity = CRITICAL,
      rule = ''Kelly Edge Case: Division by Zero'',
      file_path = fp,
      line_number = int i + 1,
      message = ''Kelly calculation lacks protection against zero payoff_ratio'',
      code_snippet = Some (strip context),
      business_impact = ''Division by zero will cause runtime error or infinite position'',
      suggested_fix = Some (''Add: assert payoff_ratio > 0, '' @ sq @ ''Invalid payoff ratio'' @ sq),
      auto_fixable = False,
      test_cases = [],
      confidence = 9 / 10\<rparr>"

definition kelly_negative_issue :: "string \<Rightarrow> nat \<Rightarrow> string \<Rightarrow> TradingIssue" where
  "kelly_negative_issue fp i context =
     \<lparr>severity = HIGH,
      rule = ''Kelly Edge Case: Negative Kelly'',
      file_path = fp,
      line_number = int i + 1,
      message = ''Kelly fraction not clamped to positive range'',
      code_snippet = Some (strip context),
      business_impact = ''Negative Kelly would indicate shorting, may violate risk rules'',
      suggested_fix = Some ''Clamp: kelly_fraction = max(0, min(kelly_fraction, max_leverage))'',
      auto_fixable = False,
      test_cases = [''Negative expected value: kelly = -0.1 '' @ arrow @ '' should clamp to 0'',
                    ''Excessive kelly: kelly = 0.5 '' @ arrow @ '' should clamp to max_leverage''],
      confidence = 85 / 100\<rparr>"

definition validate_kelly_edge_cases_at :: "string \<Rightarrow> string list \<Rightarrow> nat \<Rightarrow> TradingIssue list" where
  "validate_kelly_edge_cases_at fp lines i =
     (let line = lines ! i in
      if sublist ''kelly'' (lower line) \<or> sublist ''position_size'' (lower line) then
        (let context = join_lines (slice (i - 2) (min (length lines) (i + 5)) lines) in
         (if sublist ''payoff_ratio'' context \<or> sublist ''b ='' context then
            (if sublist ''/ '' context \<and> \<not> sublist ''if'' context \<and> \<not> sublist ''assert'' context
             then [kelly_div_zero_issue fp i context] else [])
          else [])
         @
         (if sublist ''kelly'' (lower context) then
            (if \<not> sublist ''max(0'' context \<and> \<not> sublist ''if kelly'' context
             then [kelly_negative_issue fp i context] else [])
          else []))
      else [])"

definition validate_kelly_edge_cases :: "string \<Rightarrow> string list \<Rightarrow> TradingIssue list" where
  "validate_kelly_edge_cases fp lines =
     concat (map (validate_kelly_edge_cases_at fp lines) [0..<length lines])"

text \<open>\<open>KellyCriterionValidator.analyze\<close>\<close>

definition KellyCriterionValidator_analyze :: "string \<Rightarrow> string \<Rightarrow> TradingIssue list" where
  "KellyCriterionValidator_analyze fp content =
     (let lines = split_lines content in
      validate_kelly_formula fp lines @ validate_kelly_fraction fp lines
      @ validate_kelly_edge_cases fp lines)"

section \<open>The Kelly rule in terms of the lines of the file\<close>

text \<open>
  A line holds a Kelly keyword when, in lower case, it contains \<open>kelly\<close>, \<open>fraction\<close>
  or \<open>position_size\<close>.
\<close>

definition kelly_keyword_line :: "string list \<Rightarrow> nat \<Rightarrow> bool" where
  "kelly_keyword_line lines i =
     (i < length lines \<and> list_ex (\<lambda>k. sublist k (lower (lines ! i)))
                                  [''kelly'', ''fraction'', ''position_size''])"

text \<open>
  The window of line \<open>i\<close> is the lines \<open>i - 3\<close> to \<open>i + 3\<close>, as far as the file has
  them. \<open>window_has lines i t\<close>: one of these lines contains the text \<open>t\<close>;
  \<open>window_has_any\<close>: one of them contains one of the texts.
\<close>

definition window_has :: "string list \<Rightarrow> nat \<Rightarrow> string \<Rightarrow> bool" where
  "window_has lines i t =
     list_ex (\<lambda>j. sublist t (lines ! j)) [i - 3 ..< min (length lines) (i + 4)]"

definition window_has_any :: "string list \<Rightarrow> nat \<Rightarrow> string list \<Rightarrow> bool" where
  "window_has_any lines i ts = list_ex (window_has lines i) ts"

text \<open>
  Files for the Kelly rule. The first has a win-probability and a payoff-ratio term and
  no loss-probability term, but the letter \<open>q\<close> in \<open>quantity\<close>. In the second the
  Kelly line is the fifth line and the only \<open>q\<close> stands four lines above it. In the
  third the Kelly line is the fourth line and the \<open>q\<close> stands three lines above it.
\<close>

definition kelly_quantity_file :: string where
  "kelly_quantity_file = ''kelly = win_prob * payoff_ratio / quantity''"

definition kelly_incomplete_file :: string where
  "kelly_incomplete_file =
     ''q = 1 - p'' @ [CHR 0x0A] @ ''x = 0'' @ [CHR 0x0A] @ ''y = 0'' @ [CHR 0x0A]
     @ ''z = 0'' @ [CHR 0x0A] @ ''kelly = p * b''"

definition kelly_complete_file :: string where
  "kelly_complete_file =
     ''q = 1 - p'' @ [CHR 0x0A] @ ''x = 0'' @ [CHR 0x0A] @ ''y = 0'' @ [CHR 0x0A]
     @ ''kelly = edge / b''"

section \<open>Deep scan\<close>

text \<open>
  The scores of a \<open>ScanIssue\<close> are Python floats. Their type is the parameter \<open>'f\<close>;
  the operations on them that the scanner uses (\<open>sum\<close>, \<open>+\<close> with an \<open>int\<close>,
  \<open>/\<close> by an \<open>int\<close>, reading a decimal literal) are arguments of the functions that
  need them, so nothing is assumed about rounding.
\<close>

record 'f ScanIssue =
  severity :: string
  category :: string
  file_path :: string
  line_number :: int
  message :: string
  details :: "string option"
  remediation :: "string option"
  impact_score :: 'f
  effort_score :: 'f

subsection \<open>PerformanceAnalyzer._check_memory_patterns\<close>

text \<open>
  The index \<open>i\<close> of this loop counts from 1, so \<open>lines[i-1]\<close> is the line itself; the
  conditional expression is \<open>False\<close> for the first line. \<open>flt\<close> reads a decimal literal.
\<close>

definition resource_leak_issue :: "(rat \<Rightarrow> 'f) \<Rightarrow> string \<Rightarrow> nat \<Rightarrow> 'f ScanIssue" where
  "resource_leak_issue flt fp i =
     \<lparr>severity = ''high'',
      category = ''resource_leak'',
      file_path = fp,
      line_number = int i,
      message = ''File opened without '' @ sq @ ''with'' @ sq @ '' statement'',
      details = Some ''File handle may not be properly closed'',
      remediation = Some ''Use: with open(file) as f:'',
      impact_score = flt (6 / 10),
      effort_score = flt (2 / 10)\<rparr>"

definition check_memory_patterns_at :: "(rat \<Rightarrow> 'f) \<Rightarrow> string \<Rightarrow> string list \<Rightarrow> nat \<Rightarrow> 'f ScanIssue list" where
  "check_memory_patterns_at flt fp lines i =
     (let line = lines ! (i - 1) in
      if (if i > 1 then re_search open_call_re line \<and> \<not> sublist ''with'' (lines ! (i - 1)) else False)
      then [resource_leak_issue flt fp i] else [])"

definition check_memory_patterns :: "(rat \<Rightarrow> 'f) \<Rightarrow> string \<Rightarrow> string \<Rightarrow> 'f ScanIssue list" where
  "check_memory_patterns flt fp content =
     (let lines = split_lines content in
      concat (map (check_memory_patterns_at flt fp lines) [1..<length lines + 1]))"

subsection \<open>DeepScanner._generate_statistics\<close>

text \<open>
  The function writes a report; the model returns what the report is derived from. The
  risk assessment is one of four lines of text, one per band.
\<close>

datatype risk_band = RISK_CRITICAL | RISK_HIGH | RISK_MEDIUM | RISK_LOW

record 'f Statistics =
  total_issues :: nat
  critical_issues :: nat
  high_issues :: nat
  total_impact :: 'f
  avg_effort :: 'f
  risk_score :: 'f
  risk_assessment :: risk_band

definition generate_statistics ::
    "('f list \<Rightarrow> 'f) \<Rightarrow> (int \<Rightarrow> 'f \<Rightarrow> 'f) \<Rightarrow> ('f \<Rightarrow> int \<Rightarrow> 'f) \<Rightarrow> 'f ScanIssue list \<Rightarrow> 'f Statistics" where
  "generate_statistics py_sum py_add py_div all_issues =
     (let critical = length (filter (\<lambda>i. severity i = ''critical'') all_issues);
          high = length (filter (\<lambda>i. severity i = ''high'') all_issues);
          impact = py_sum (map impact_score all_issues);
          effort = py_div (py_sum (map effort_score all_issues)) (max 1 (int (length all_issues)))
      in \<lparr>total_issues = length all_issues,
          critical_issues = critical,
          high_issues = high,
          total_impact = impact,
          avg_effort = effort,
          risk_score = py_add (int critical * 10 + int high * 5) impact,
          risk_assessment =
            (if critical > 5 then RISK_CRITICAL
             else if critical > 0 then RISK_HIGH
             else if high > 10 then RISK_MEDIUM
             else RISK_LOW)\<rparr>)"

text \<open>The statistics report as the specification words it, from the counts.\<close>

definition spec_risk_band :: "nat \<Rightarrow> nat \<Rightarrow> risk_band" where
  "spec_risk_band critical_count high_count =
     (if critical_count > 5 then RISK_CRITICAL
      else if critical_count \<ge> 1 then RISK_HIGH
      else if high_count > 10 then RISK_MEDIUM
      else RISK_LOW)"

definition severity_count :: "string \<Rightarrow> 'f ScanIssue list \<Rightarrow> nat" where
  "severity_count sev all_issues = count_list (map severity all_issues) sev"

section \<open>EventProcessingProfiler\<close>

datatype py_error = IndexError | ValueError | ZeroDivisionError

text \<open>
  Subscription \<open>xs[i]\<close> of a list by an integer: an index from \<open>-len(xs)\<close> up to
  \<open>-1\<close> is taken from the end, one outside \<open>-len(xs) \<dots> len(xs) - 1\<close> raises.
\<close>

definition py_index :: "'a list \<Rightarrow> int \<Rightarrow> py_error + 'a" where
  "py_index xs i =
     (if 0 \<le> i \<and> i < int (length xs) then Inr (xs ! nat i)
      else if - int (length xs) \<le> i \<and> i < 0 then Inr (xs ! nat (int (length xs) + i))
      else Inl IndexError)"

text \<open>\<open>int(x)\<close> on a float truncates towards zero.\<close>

definition py_int :: "real \<Rightarrow> int" where
  "py_int x = (if x \<ge> 0 then \<lfloor>x\<rfloor> else \<lceil>x\<rceil>)"

text \<open>
  The float constants \<open>0.50\<close>, \<open>0.95\<close> and \<open>0.99\<close> are binary64 numbers; these are
  their exact values.
\<close>

definition c50 :: real where "c50 = 1 / 2"
definition c95 :: real where "c95 = 4278419646001971 / 4503599627370496"
definition c99 :: real where "c99 = 4458563631096791 / 4503599627370496"

text \<open>
  \<open>int(len(latencies) * c)\<close>: the length becomes a float, the product is rounded to a
  float, and \<open>int\<close> truncates it. \<open>rnd\<close> is the rounding of a real number to a float.
\<close>

definition percentile_index :: "(real \<Rightarrow> real) \<Rightarrow> nat \<Rightarrow> real \<Rightarrow> int" where
  "percentile_index rnd n c = py_int (rnd (rnd (real n) * c))"

text \<open>
  What is used of the rounding: on the range of the numbers met here its relative error
  is at most \<open>2\<^sup>-\<^sup>5\<^sup>3\<close>, which round-to-nearest binary64 satisfies.
\<close>

definition rounds_to_nearest :: "(real \<Rightarrow> real) \<Rightarrow> nat \<Rightarrow> bool" where
  "rounds_to_nearest rnd n =
     (\<forall>x. 1 / 4 \<le> x \<and> x \<le> 2 * real n \<longrightarrow> \<bar>rnd x - x\<bar> \<le> x / 2 ^ 53)"

text \<open>\<open>min(xs)\<close> and \<open>max(xs)\<close> raise \<open>ValueError\<close> on an empty list.\<close>

definition py_min :: "'a::linorder list \<Rightarrow> py_error + 'a" where
  "py_min xs = (case xs of [] \<Rightarrow> Inl ValueError | x # rest \<Rightarrow> Inr (fold min rest x))"

definition py_max :: "'a::linorder list \<Rightarrow> py_error + 'a" where
  "py_max xs = (case xs of [] \<Rightarrow> Inl ValueError | x # rest \<Rightarrow> Inr (fold max rest x))"

text \<open>
  \<open>get_percentiles\<close>. The dictionary it returns is the list of its items in order.
  \<open>event_latencies\<close> is the \<open>defaultdict\<close>, read with \<open>get(event_type, [])\<close>. The
  latencies are of an ordered type \<open>'a\<close>; \<open>py_sum\<close> and \<open>py_div\<close> are the float sum and
  the division by a non-zero \<open>int\<close>.
\<close>

definition get_percentiles ::
    "(real \<Rightarrow> real) \<Rightarrow> ('a list \<Rightarrow> 'a) \<Rightarrow> ('a \<Rightarrow> int \<Rightarrow> 'a) \<Rightarrow> (string \<Rightarrow> 'a::linorder list option)
      \<Rightarrow> string \<Rightarrow> py_error + (string \<times> 'a) list" where
  "get_percentiles rnd py_sum py_div event_latencies event_type =
     (let latencies = sort (case event_latencies event_type of None \<Rightarrow> [] | Some l \<Rightarrow> l);
          n = length latencies
      in if latencies = [] then Inr []
         else
           (case py_index latencies (percentile_index rnd n c50) of Inl e \<Rightarrow> Inl e | Inr p50 \<Rightarrow>
           (case py_index latencies (percentile_index rnd n c95) of Inl e \<Rightarrow> Inl e | Inr p95 \<Rightarrow>
           (case py_index latencies (percentile_index rnd n c99) of Inl e \<Rightarrow> Inl e | Inr p99 \<Rightarrow>
           (case py_min latencies of Inl e \<Rightarrow> Inl e | Inr mn \<Rightarrow>
           (case py_max latencies of Inl e \<Rightarrow> Inl e | Inr mx \<Rightarrow>
            if int n = 0 then Inl ZeroDivisionError
            else Inr [(''p50'', p50), (''p95'', p95), (''p99'', p99),
                      (''min'', mn), (''max'', mx), (''avg'', py_div (py_sum latencies) (int n))]))))))"

section \<open>Properties of the tree visitors\<close>

subsection \<open>The N+1 rule on uniformly nested loops\<close>

lemma qpd_emit_simps:
  "in_loop (qpd_emit fp s cs) = in_loop s"
  "loop_depth (qpd_emit fp s cs) = loop_depth s"
  "qpd_emit fp s [] = s"
  "qpd_emit fp (qpd_emit fp s cs) ds = qpd_emit fp s (cs @ ds)"
  by (simp_all add: qpd_emit_def)

lemma qpd_check_call_emit:
  "qpd_check_call fp lineno func s =
     qpd_emit fp s (if any_in db_patterns (lower (get_call_name func))
                    then [(lineno, get_call_name func)] else [])"
  by (simp add: qpd_check_call_def qpd_emit_def Let_def)

text \<open>Without a loop in the tree, the detector's depth and flag stay what they are.\<close>

lemma qpd_loop_free:
  "loop_free t \<Longrightarrow> qpd_visit fp t s = qpd_emit fp s (db_calls t)"
  "loop_free_list ts \<Longrightarrow> qpd_visit_list fp ts s = qpd_emit fp s (db_calls_list ts)"
  by (induction fp t s and fp ts s rule: qpd_visit_qpd_visit_list.induct)
     (simp_all add: qpd_emit_simps qpd_check_call_emit)

lemma qpd_nest:
  assumes "\<forall>h \<in> set hs. plain_header h" and "loop_free stmt" and "hs \<noteq> []"
    and "in_loop s \<longleftrightarrow> loop_depth s > 0" and "loop_depth s \<ge> 0"
  shows "qpd_visit fp (foldr wrap_loop hs stmt) s =
     s\<lparr>qpd_issues := qpd_issues s @
        map (\<lambda>(l, n). n_plus_1_issue fp l n (loop_depth s + int (length hs))) (db_calls stmt)\<rparr>"
  using assms
proof (induction hs arbitrary: s)
  case Nil
  then show ?case by simp
next
  case (Cons h hs)
  let ?s1 = "qpd_enter_loop s"
  have s1: "in_loop ?s1" "loop_depth ?s1 = loop_depth s + 1" "qpd_issues ?s1 = qpd_issues s"
    by (simp_all add: qpd_enter_loop_def)
  have inner: "qpd_visit fp (foldr wrap_loop hs stmt) ?s1 =
     ?s1\<lparr>qpd_issues := qpd_issues ?s1 @
        map (\<lambda>(l, n). n_plus_1_issue fp l n (loop_depth ?s1 + int (length hs))) (db_calls stmt)\<rparr>"
  proof (cases "hs = []")
    case True
    then show ?thesis using Cons.prems(2) s1 by (simp add: qpd_loop_free qpd_emit_def)
  next
    case False
    then show ?thesis using Cons.IH[of ?s1] Cons.prems s1 by simp
  qed
  show ?case
  proof (cases h)
    case (ForH lineno target iter orelse)
    then show ?thesis using Cons.prems inner s1
      by (cases s)
         (auto simp add: qpd_loop_free qpd_emit_def qpd_exit_loop_def qpd_enter_loop_def
            Let_def add.assoc)
  next
    case (WhileH lineno test orelse)
    then show ?thesis using Cons.prems inner s1
      by (cases s)
         (auto simp add: qpd_loop_free qpd_emit_def qpd_exit_loop_def qpd_enter_loop_def
            Let_def add.assoc)
  qed
qed

text \<open>
  Claim C1. On a file of \<open>k \<ge> 1\<close> uniformly nested \<open>for\<close>/\<open>while\<close> loops (headers
  without loops or database calls of their own) whose innermost statement holds exactly
  one call with a database-call name, at line \<open>lineno\<close>, a fresh
  \<open>QueryPatternDetector\<close> ends with exactly one issue: rule \<open>N+1 Query Pattern\<close>, at
  \<open>lineno\<close>, severity critical when \<open>k > 1\<close> and high when \<open>k = 1\<close>.
\<close>

theorem C1_n_plus_1_nested_loops:
  assumes "hs \<noteq> []" and "\<forall>h \<in> set hs. plain_header h"
    and "loop_free stmt" and "db_calls stmt = [(lineno, call_name)]"
  shows "\<exists>issue.
      qpd_issues (qpd_visit fp (nested_loops_file hs stmt) QueryPatternDetector_init) = [issue]
    \<and> PerformanceIssue.rule issue = ''N+1 Query Pattern''
    \<and> PerformanceIssue.line_number issue = lineno
    \<and> PerformanceIssue.severity issue = (if length hs > 1 then CRITICAL else HIGH)"
  using assms qpd_nest[of hs stmt QueryPatternDetector_init fp]
  by (simp add: nested_loops_file_def QueryPatternDetector_init_def n_plus_1_issue_def)

text \<open>
  The file
  \<^verbatim>\<open>for i in range(n):\<close>, \<^verbatim>\<open>    while go:\<close>, \<^verbatim>\<open>        db.query(i)\<close>
  has two loops, so its one finding is critical.
\<close>

theorem C1_n_plus_1_nested_loops_witness:
  "\<exists>issue.
      qpd_issues (qpd_visit ''f.py''
        (nested_loops_file [ForH 1 (Name ''i'') (Call 1 (Name ''range'') [Name ''n''] []) [],
                            WhileH 2 (Name ''go'') []]
           (Other [Call 3 (Attribute (Name ''db'') ''query'') [Name ''i''] []]))
        QueryPatternDetector_init) = [issue]
    \<and> PerformanceIssue.rule issue = ''N+1 Query Pattern''
    \<and> PerformanceIssue.line_number issue = 3
    \<and> PerformanceIssue.severity issue = CRITICAL"
  using C1_n_plus_1_nested_loops[of
      "[ForH 1 (Name ''i'') (Call 1 (Name ''range'') [Name ''n''] []) [], WhileH 2 (Name ''go'') []]"
      "Other [Call 3 (Attribute (Name ''db'') ''query'') [Name ''i''] []]" 3 "''query''" "''f.py''"]
  by (simp add: any_in_def db_patterns_def lower_def lower_char_def sublist_Cons_right)

subsection \<open>The loop counter of the complexity analyzer\<close>

text \<open>
  Where no function definition is met, \<open>nested_loops\<close> follows the push/pop discipline:
  it is back at its old value after every subtree.
\<close>

lemma aca_counter_restored_def_free:
  "def_free t \<Longrightarrow> nested_loops (aca_visit fp t s) = nested_loops s"
  "def_free_list ts \<Longrightarrow> nested_loops (aca_visit_list fp ts s) = nested_loops s"
  by (induction fp t s and fp ts s rule: aca_visit_aca_visit_list.induct)
     (simp_all add: aca_exit_loop_def aca_enter_for_def aca_enter_while_def Let_def)

text \<open>
  Claim C2 fails on the code. \<open>visit_FunctionDef\<close> sets \<open>nested_loops\<close> to 0 and does
  not put the old value back, so the decrement of an enclosing loop takes the counter
  below zero. The file is
  \<^verbatim>\<open>for x in xs:\<close>, \<^verbatim>\<open>    def f():\<close>, \<^verbatim>\<open>        pass\<close>.
\<close>

theorem C2_counter_negative_after_def_in_loop:
  "nested_loops (aca_visit fp
      (Other [For 1 (Name ''x'') (Name ''xs'') [FunctionDef 2 ''f'' [Other []] [Other []] []] []])
      AlgorithmComplexityAnalyzer_init) = - 1"
  by (simp add: AlgorithmComplexityAnalyzer_init_def aca_enter_for_def aca_enter_function_def
      aca_exit_loop_def Let_def)

subsection \<open>Severity of deep nesting\<close>

text \<open>A \<open>for\<close> loop that takes the counter to \<open>d \<ge> 3\<close> is reported medium at 3, high from 4 on.\<close>

lemma aca_enter_for_deep:
  assumes "nested_loops s + 1 \<ge> 3"
  shows "aca_issues (aca_enter_for fp lineno s) =
           aca_issues s @ [for_nesting_issue fp lineno (nested_loops s + 1)]"
    and "PerformanceIssue.severity (for_nesting_issue fp lineno (nested_loops s + 1)) =
           (if nested_loops s + 1 \<ge> 4 then HIGH else MEDIUM)"
  using assms by (simp_all add: aca_enter_for_def for_nesting_issue_def Let_def)

text \<open>
  Claim C5 fails on the code for \<open>while\<close> loops: \<open>visit_While\<close> reports every depth
  from 3 on as medium. Four nested \<open>while\<close> loops (lines 1 to 4) give a medium finding
  for the fourth, four nested \<open>for\<close> loops a high one.
\<close>

theorem C5_while_depth_4_is_medium:
  "map (\<lambda>i. (PerformanceIssue.line_number i, PerformanceIssue.severity i)) (aca_issues (aca_visit fp
      (Other [While 1 (Name ''a'') [While 2 (Name ''b'') [While 3 (Name ''c'')
         [While 4 (Name ''d'') [Other []] []] []] []] []])
      AlgorithmComplexityAnalyzer_init)) = [(3, MEDIUM), (4, MEDIUM)]"
  by (simp add: AlgorithmComplexityAnalyzer_init_def aca_enter_while_def while_nesting_issue_def
      aca_exit_loop_def Let_def)

lemma for_depth_4_is_high:
  "map (\<lambda>i. (PerformanceIssue.line_number i, PerformanceIssue.severity i)) (aca_issues (aca_visit fp
      (Other [For 1 (Name ''a'') (Name ''as'') [For 2 (Name ''b'') (Name ''bs'')
         [For 3 (Name ''c'') (Name ''cs'') [For 4 (Name ''d'') (Name ''ds'') [Other []] []] []] []] []])
      AlgorithmComplexityAnalyzer_init)) = [(3, MEDIUM), (4, HIGH)]"
  by (simp add: AlgorithmComplexityAnalyzer_init_def aca_enter_for_def for_nesting_issue_def
      aca_exit_loop_def Let_def)

section \<open>Properties of the text rules of the performance validator\<close>

subsection \<open>Unclosed file handles\<close>

lemma check_file_handles_set:
  "set (check_file_handles fp lines) = (\<Union>i \<in> {0..<length lines}. set (check_file_handles_at fp lines i))"
  by (simp add: check_file_handles_def)

lemma check_file_handles_at_line_number:
  "iss \<in> set (check_file_handles_at fp lines i) \<Longrightarrow>
     i > 0 \<and> iss = resource_issue fp i (lines ! i)"
  by (auto simp: check_file_handles_at_def Let_def split: if_splits)

text \<open>
  From the second line on, the rule is as the specification has it: an \<open>open(\<close> without
  \<open>with\<close> on its own line and on the line before is reported, high severity, at its line.
\<close>

lemma check_file_handles_later_line:
  assumes "0 < i" and "i < length lines"
    and "re_search open_call_re (lines ! i)" and "\<not> sublist ''with'' (lines ! i)"
  shows "(\<exists>iss \<in> set (check_file_handles fp lines).
            PerformanceIssue.severity iss = HIGH \<and> PerformanceIssue.rule iss = ''Resource Management''
            \<and> PerformanceIssue.line_number iss = int i + 1)
         \<longleftrightarrow> \<not> sublist ''with'' (lines ! (i - 1))"
proof
  assume "\<exists>iss \<in> set (check_file_handles fp lines).
            PerformanceIssue.severity iss = HIGH \<and> PerformanceIssue.rule iss = ''Resource Management''
            \<and> PerformanceIssue.line_number iss = int i + 1"
  then obtain iss j where j: "j < length lines" and iss: "iss \<in> set (check_file_handles_at fp lines j)"
    and l: "PerformanceIssue.line_number iss = int i + 1"
    unfolding check_file_handles_set by auto
  from check_file_handles_at_line_number[OF iss] l have "j = i"
    by (simp add: resource_issue_def)
  with iss show "\<not> sublist ''with'' (lines ! (i - 1))"
    by (auto simp: check_file_handles_at_def Let_def split: if_splits)
next
  assume "\<not> sublist ''with'' (lines ! (i - 1))"
  with assms have "resource_issue fp i (lines ! i) \<in> set (check_file_handles_at fp lines i)"
    by (simp add: check_file_handles_at_def Let_def)
  with assms(2) have "resource_issue fp i (lines ! i) \<in> set (check_file_handles fp lines)"
    unfolding check_file_handles_set by auto
  then show "\<exists>iss \<in> set (check_file_handles fp lines).
            PerformanceIssue.severity iss = HIGH \<and> PerformanceIssue.rule iss = ''Resource Management''
            \<and> PerformanceIssue.line_number iss = int i + 1"
    by (rule bexI[rotated]) (simp add: resource_issue_def)
qed

text \<open>Nothing is ever reported at the first line: the guard \<open>i > 0\<close> leaves it out.\<close>

lemma check_file_handles_never_first_line:
  "iss \<in> set (check_file_handles fp lines) \<Longrightarrow> PerformanceIssue.line_number iss \<noteq> 1"
  unfolding check_file_handles_set
  by (auto dest!: check_file_handles_at_line_number simp: resource_issue_def)

text \<open>
  Claim C8 fails on the code for the first line of a file. The file is the single line
  \<^verbatim>\<open>f = open(path)\<close>: it opens a file, has no \<open>with\<close> and no line before it, and
  neither \<open>MemoryLeakDetector\<close> nor the deep scan's \<open>_check_memory_patterns\<close> reports
  anything.
\<close>

theorem C8_open_on_first_line_not_flagged:
  "re_search open_call_re ''f = open(path)'' \<and> \<not> sublist ''with'' ''f = open(path)''
   \<and> MemoryLeakDetector_analyze fp ''f = open(path)'' = []
   \<and> check_memory_patterns flt fp ''f = open(path)'' = []"
  by (simp add: MemoryLeakDetector_analyze_def check_file_handles_def check_file_handles_at_def
     check_unbounded_collections_def check_unbounded_collections_at_def check_circular_references_def
     circular_at_def check_memory_patterns_def check_memory_patterns_at_def
     Let_def open_call_re_def seqs_def lit_def chr_def re_space_def is_space_def
     sublist_Cons_right)

subsection \<open>Files that do not parse\<close>

lemma check_unbounded_collections_rule:
  "iss \<in> set (check_unbounded_collections fp lines) \<Longrightarrow>
     PerformanceIssue.rule iss = ''Unbounded Collection''"
  by (auto simp: check_unbounded_collections_def check_unbounded_collections_at_def Let_def
      unbounded_issue_def split: if_splits)

lemma check_circular_references_rule:
  "iss \<in> set (check_circular_references fp lines) \<Longrightarrow>
     PerformanceIssue.rule iss = ''Potential Circular Reference''"
  by (auto simp: check_circular_references_def circular_issue_def split: option.splits)

lemma check_blocking_operations_rule:
  "iss \<in> set (check_blocking_operations fp lines) \<Longrightarrow>
     PerformanceIssue.rule iss = ''Blocking Operation in Event Handler''"
  by (auto simp: check_blocking_operations_def check_blocking_operations_at_def Let_def
      blocking_issue_def split: if_splits)

lemma check_long_running_operations_rule:
  "iss \<in> set (check_long_running_operations fp lines) \<Longrightarrow>
     PerformanceIssue.rule iss = ''Potentially Long Loop''"
  by (auto simp: check_long_running_operations_def check_long_running_operations_at_def Let_def
      long_loop_issue_def split: if_splits)

lemma check_file_handles_rule:
  "iss \<in> set (check_file_handles fp lines) \<Longrightarrow> PerformanceIssue.rule iss = ''Resource Management''"
  unfolding check_file_handles_set
  by (auto dest!: check_file_handles_at_line_number simp: resource_issue_def)

lemma text_issues_rule:
  assumes "iss \<in> set (MemoryLeakDetector_analyze fp content @ LatencyValidator_analyze fp content)"
  shows "PerformanceIssue.rule iss \<in> text_rule_names"
proof -
  from assms consider
      "iss \<in> set (check_file_handles fp (split_lines content))"
    | "iss \<in> set (check_unbounded_collections fp (split_lines content))"
    | "iss \<in> set (check_circular_references fp (split_lines content))"
    | "iss \<in> set (check_blocking_operations fp (split_lines content))"
    | "iss \<in> set (check_long_running_operations fp (split_lines content))"
    by (auto simp: MemoryLeakDetector_analyze_def LatencyValidator_analyze_def Let_def)
  then show ?thesis
  proof cases
    case 1 then show ?thesis using check_file_handles_rule[OF 1] by (simp add: text_rule_names_def)
  next
    case 2 then show ?thesis using check_unbounded_collections_rule[OF 2] by (simp add: text_rule_names_def)
  next
    case 3 then show ?thesis using check_circular_references_rule[OF 3] by (simp add: text_rule_names_def)
  next
    case 4 then show ?thesis using check_blocking_operations_rule[OF 4] by (simp add: text_rule_names_def)
  next
    case 5 then show ?thesis using check_long_running_operations_rule[OF 5] by (simp add: text_rule_names_def)
  qed
qed

text \<open>
  Claim C3 as stated fails: no parse-error finding is recorded. The content
  \<^verbatim>\<open>def f(:\<close> does not parse, and \<open>validate\<close> returns no finding at all.
\<close>

theorem C3_no_parse_error_finding_counterexample:
  "validate ''a.py'' (Inl SyntaxError) ''def f(:'' = Inr []"
  by (simp add: validate_def MemoryLeakDetector_analyze_def LatencyValidator_analyze_def
     check_file_handles_def check_file_handles_at_def
     check_unbounded_collections_def check_unbounded_collections_at_def check_circular_references_def
     circular_at_def check_blocking_operations_def check_blocking_operations_at_def
     check_long_running_operations_def check_long_running_operations_at_def long_loop_re_def
     Let_def open_call_re_def seqs_def lit_def chr_def plus_def re_space_def is_space_def
     slice_def sublist_Cons_right)

text \<open>
  Claim C3, amended. When the content fails to parse with a \<open>SyntaxError\<close>,
  \<open>validate\<close> does not raise: it returns exactly the findings of the text-based checks
  (resource management, unbounded collection, circular reference, blocking operation in
  an event handler, long loop), every finding under one of their rule names, and
  records no finding for the parse failure.
\<close>

theorem C3_validate_syntax_error:
  "validate fp (Inl SyntaxError) content =
     Inr (MemoryLeakDetector_analyze fp content @ LatencyValidator_analyze fp content)
   \<and> PerformanceIssue.rule ` set (MemoryLeakDetector_analyze fp content @ LatencyValidator_analyze fp content)
       \<subseteq> text_rule_names"
proof
  show "validate fp (Inl SyntaxError) content =
     Inr (MemoryLeakDetector_analyze fp content @ LatencyValidator_analyze fp content)"
    by (simp add: validate_def)
  show "PerformanceIssue.rule ` set (MemoryLeakDetector_analyze fp content @ LatencyValidator_analyze fp content)
       \<subseteq> text_rule_names"
    using text_issues_rule by blast
qed

section \<open>Properties of the API key rule\<close>

lemma api_key_exposure_at_key_matches:
  "api_key_exposure_at fp lines i =
     (let line = lines ! (i - 1) in
      if startswith (strip line) ''#'' \<or> sublist ''.env'' fp then []
      else concat (map (\<lambda>(key_name, vs).
             concat (map (\<lambda>api_value.
                 if sublist ''os.getenv'' line \<or> sublist ''environ'' line \<or> sublist ''${'' line
                 then [] else [api_key_issue fp i line key_name api_value]) vs))
           (key_matches line)))"
  by (simp add: api_key_exposure_at_def key_matches_def Let_def comp_def case_prod_unfold cong: if_cong)

lemma validate_api_key_exposure_single_line:
  assumes "split_lines content = [content]"
  shows "validate_api_key_exposure fp content = api_key_exposure_at fp [content] 1"
  using assms by (simp add: validate_api_key_exposure_def)

lemma key_matches_api_key_line:
  "key_matches api_key_line =
     [(''COINBASE_API_KEY'', []), (''BINANCE_API_KEY'', []), (''KRAKEN_API_KEY'', []),
      (''ANTHROPIC_API_KEY'', []), (''POLYGON_API_KEY'', []), (''SUPABASE_KEY'', []),
      (''aws_access_key'', []), (''generic_api_key'', [])]"
  by code_simp

lemma key_matches_anthropic_key_line:
  "key_matches anthropic_key_line =
     [(''COINBASE_API_KEY'', []), (''BINANCE_API_KEY'', []), (''KRAKEN_API_KEY'', []),
      (''ANTHROPIC_API_KEY'', [''sk-abcdef1234567890abcdef1234567890'']), (''POLYGON_API_KEY'', []),
      (''SUPABASE_KEY'', []), (''aws_access_key'', []), (''generic_api_key'', [])]"
  by code_simp

lemma single_lines:
  "split_lines api_key_line = [api_key_line]"
  "split_lines api_key_getenv_line = [api_key_getenv_line]"
  "split_lines anthropic_key_line = [anthropic_key_line]"
  "split_lines anthropic_getenv_line = [anthropic_getenv_line]"
  by code_simp+

lemma getenv_lines:
  "sublist ''os.getenv'' api_key_getenv_line"
  "sublist ''os.getenv'' anthropic_getenv_line"
  by code_simp+

lemma anthropic_key_line_plain:
  "\<not> startswith (strip anthropic_key_line) ''#''"
  "\<not> sublist ''os.getenv'' anthropic_key_line"
  "\<not> sublist ''environ'' anthropic_key_line"
  "\<not> sublist ''${'' anthropic_key_line"
  by code_simp+

text \<open>A line that refers to \<open>os.getenv\<close> is never reported.\<close>

lemma api_key_exposure_at_getenv:
  "sublist ''os.getenv'' (lines ! (i - 1)) \<Longrightarrow> api_key_exposure_at fp lines i = []"
  by (auto simp: api_key_exposure_at_def Let_def)

text \<open>
  Claim C4 as stated fails: the one-line file \<^verbatim>\<open>API_KEY = "sk-abcdef1234567890abcdef1234567890"\<close>
  gives no issue. \<open>API_KEY\<close> is none of the key names of \<open>API_KEY_PATTERNS\<close>, and
  the literal is no run of 40 letters and digits.
\<close>

theorem C4_api_key_line_counterexample:
  "validate_api_key_exposure ''config.py'' api_key_line = []"
  by (simp add: validate_api_key_exposure_single_line[OF single_lines(1)]
      api_key_exposure_at_key_matches key_matches_api_key_line)

text \<open>
  Claim C4, amended. \<open>validate_api_key_exposure\<close> gives no issue for the one-line file
  \<^verbatim>\<open>API_KEY = "sk-abcdef1234567890abcdef1234567890"\<close> and none for
  \<^verbatim>\<open>API_KEY = os.getenv('API_KEY')\<close>. With a key name of the table,
  \<^verbatim>\<open>ANTHROPIC_API_KEY = "sk-abcdef1234567890abcdef1234567890"\<close>, in a file whose path
  does not contain \<open>.env\<close>, it gives exactly one issue, critical, rule
  \<open>api_key_exposure\<close>, at line 1; and none for that line rewritten as
  \<^verbatim>\<open>ANTHROPIC_API_KEY = os.getenv('ANTHROPIC_API_KEY')\<close>.
\<close>

theorem C4_api_key_exposure_amended:
  "validate_api_key_exposure fp api_key_line = []
   \<and> validate_api_key_exposure fp api_key_getenv_line = []
   \<and> (\<not> sublist ''.env'' fp \<longrightarrow>
        (\<exists>iss. validate_api_key_exposure fp anthropic_key_line = [iss]
           \<and> SecurityIssue.severity iss = ''critical''
           \<and> SecurityIssue.rule iss = ''api_key_exposure''
           \<and> SecurityIssue.line_number iss = 1))
   \<and> validate_api_key_exposure fp anthropic_getenv_line = []"
proof (intro conjI impI)
  show "validate_api_key_exposure fp api_key_line = []"
    by (simp add: validate_api_key_exposure_single_line[OF single_lines(1)]
        api_key_exposure_at_key_matches key_matches_api_key_line)
  show "validate_api_key_exposure fp api_key_getenv_line = []"
    by (simp add: validate_api_key_exposure_single_line[OF single_lines(2)]
        api_key_exposure_at_getenv getenv_lines)
  show "validate_api_key_exposure fp anthropic_getenv_line = []"
    by (simp add: validate_api_key_exposure_single_line[OF single_lines(4)]
        api_key_exposure_at_getenv getenv_lines)
next
  assume "\<not> sublist ''.env'' fp"
  then have "validate_api_key_exposure fp anthropic_key_line =
      [api_key_issue fp 1 anthropic_key_line ''ANTHROPIC_API_KEY''
         ''sk-abcdef1234567890abcdef1234567890'']"
    by (simp add: validate_api_key_exposure_single_line[OF single_lines(3)]
        api_key_exposure_at_key_matches key_matches_anthropic_key_line anthropic_key_line_plain)
  then show "\<exists>iss. validate_api_key_exposure fp anthropic_key_line = [iss]
           \<and> SecurityIssue.severity iss = ''critical''
           \<and> SecurityIssue.rule iss = ''api_key_exposure''
           \<and> SecurityIssue.line_number iss = 1"
    by (simp add: api_key_issue_def)
qed

theorem C4_api_key_exposure_amended_witness:
  "\<not> sublist ''.env'' ''config.py''
   \<and> (\<exists>iss. validate_api_key_exposure ''config.py'' anthropic_key_line = [iss]
           \<and> SecurityIssue.severity iss = ''critical''
           \<and> SecurityIssue.rule iss = ''api_key_exposure''
           \<and> SecurityIssue.line_number iss = 1)
   \<and> validate_api_key_exposure ''config.py'' anthropic_getenv_line = []"
proof -
  have h: "\<not> sublist ''.env'' ''config.py''" by code_simp
  show ?thesis using h C4_api_key_exposure_amended[of "''config.py''"] by blast
qed

section \<open>Properties of the tax rules\<close>

lemma ltcg_at_line_number:
  "iss \<in> set (ltcg_classification_at fp lines i) \<Longrightarrow> TaxIssue.line_number iss = int i"
  by (auto simp: ltcg_classification_at_def Let_def ltcg_boundary_issue_def ltcg_rate_issue_def
      split: if_splits)

lemma validate_ltcg_set:
  "set (validate_ltcg_classification fp content) =
     (\<Union>i \<in> {1..length (split_lines content)}. set (ltcg_classification_at fp (split_lines content) i))"
proof -
  have "set [1..<length (split_lines content) + 1] = {1..length (split_lines content)}"
    by (auto simp del: upt_Suc)
  then show ?thesis
    by (simp del: upt_Suc set_upt add: validate_ltcg_classification_def Let_def)
qed

text \<open>
  Claim C6 as stated fails: the rule looks for the text \<open>> 365\<close>, with the space. A line
  with the strict comparison written \<^verbatim>\<open>holding_days>365\<close> or \<^verbatim>\<open>365 < holding_days\<close>
  is reported.
\<close>

theorem C6_strict_comparison_flagged_counterexample:
  "validate_ltcg_classification ''tax.py'' ltcg_strict_no_space_file = [ltcg_boundary_issue ''tax.py'' 1]
   \<and> validate_ltcg_classification ''tax.py'' ltcg_strict_reversed_file = [ltcg_boundary_issue ''tax.py'' 1]"
  by (simp add: validate_ltcg_classification_def ltcg_classification_at_def Let_def
      ltcg_strict_no_space_file_def ltcg_strict_reversed_file_def lower_def lower_char_def
      sublist_Cons_right)

text \<open>
  Claim C6, amended. Take any line of a file that contains \<open>holding\<close> (in any case)
  together with \<open>365\<close> or \<open>year\<close>. If the line contains the text \<open>>= 365\<close>, or does
  not contain the text \<open>> 365\<close> (whatever comparison it makes),
  \<open>validate_ltcg_classification\<close> reports a high-severity
  \<open>ltcg_holding_period_boundary\<close> issue at that line. If it contains the text
  \<open>> 365\<close> and not \<open>>= 365\<close>, no issue of that rule is reported at that line.
\<close>

theorem C6_ltcg_boundary_amended:
  assumes "i < length (split_lines content)"
    and "line = split_lines content ! i"
    and "sublist ''holding'' (lower line)"
    and "sublist ''365'' line \<or> sublist ''year'' (lower line)"
  shows "(sublist ''>= 365'' line \<or> \<not> sublist ''> 365'' line \<longrightarrow>
            (\<exists>iss \<in> set (validate_ltcg_classification fp content).
               TaxIssue.severity iss = ''high'' \<and> TaxIssue.rule iss = ''ltcg_holding_period_boundary''
               \<and> TaxIssue.line_number iss = int i + 1))
       \<and> (sublist ''> 365'' line \<and> \<not> sublist ''>= 365'' line \<longrightarrow>
            \<not> (\<exists>iss \<in> set (validate_ltcg_classification fp content).
               TaxIssue.rule iss = ''ltcg_holding_period_boundary''
               \<and> TaxIssue.line_number iss = int i + 1))"
proof (intro conjI impI)
  assume ge: "sublist ''>= 365'' line \<or> \<not> sublist ''> 365'' line"
  have "ltcg_boundary_issue fp (Suc i) \<in> set (ltcg_classification_at fp (split_lines content) (Suc i))"
    using assms ge by (auto simp add: ltcg_classification_at_def Let_def)
  moreover have "Suc i \<in> {1..length (split_lines content)}" using assms(1) by simp
  ultimately have "ltcg_boundary_issue fp (Suc i) \<in> set (validate_ltcg_classification fp content)"
    unfolding validate_ltcg_set by blast
  then show "\<exists>iss \<in> set (validate_ltcg_classification fp content).
               TaxIssue.severity iss = ''high'' \<and> TaxIssue.rule iss = ''ltcg_holding_period_boundary''
               \<and> TaxIssue.line_number iss = int i + 1"
    by (rule bexI[rotated]) (simp add: ltcg_boundary_issue_def)
next
  assume strict: "sublist ''> 365'' line \<and> \<not> sublist ''>= 365'' line"
  show "\<not> (\<exists>iss \<in> set (validate_ltcg_classification fp content).
               TaxIssue.rule iss = ''ltcg_holding_period_boundary''
               \<and> TaxIssue.line_number iss = int i + 1)"
  proof
    assume "\<exists>iss \<in> set (validate_ltcg_classification fp content).
               TaxIssue.rule iss = ''ltcg_holding_period_boundary''
               \<and> TaxIssue.line_number iss = int i + 1"
    then obtain iss j where j: "j \<in> {1..length (split_lines content)}"
      and iss: "iss \<in> set (ltcg_classification_at fp (split_lines content) j)"
      and r: "TaxIssue.rule iss = ''ltcg_holding_period_boundary''"
      and l: "TaxIssue.line_number iss = int i + 1"
      unfolding validate_ltcg_set by blast
    from ltcg_at_line_number[OF iss] l have "j = Suc i" by simp
    with iss r strict assms show False
      by (auto simp: ltcg_classification_at_def Let_def ltcg_rate_issue_def split: if_splits)
  qed
qed

text \<open>
  The one-line files \<^verbatim>\<open>if holding_days >= 365:\<close>, \<^verbatim>\<open>if holding_days>365:\<close> and
  \<^verbatim>\<open>if holding_days > 365:\<close>: the first two are reported, the third is not.
\<close>

theorem C6_ltcg_boundary_amended_witness:
  "(\<exists>iss \<in> set (validate_ltcg_classification ''tax.py'' ltcg_non_strict_file).
       TaxIssue.severity iss = ''high'' \<and> TaxIssue.rule iss = ''ltcg_holding_period_boundary''
       \<and> TaxIssue.line_number iss = int 0 + 1)
   \<and> (\<exists>iss \<in> set (validate_ltcg_classification ''tax.py'' ltcg_strict_no_space_file).
       TaxIssue.severity iss = ''high'' \<and> TaxIssue.rule iss = ''ltcg_holding_period_boundary''
       \<and> TaxIssue.line_number iss = int 0 + 1)
   \<and> \<not> (\<exists>iss \<in> set (validate_ltcg_classification ''tax.py'' ltcg_strict_file).
       TaxIssue.rule iss = ''ltcg_holding_period_boundary'' \<and> TaxIssue.line_number iss = int 0 + 1)"
proof -
  have a: "0 < length (split_lines ltcg_non_strict_file)"
    "ltcg_non_strict_file = split_lines ltcg_non_strict_file ! 0"
    "sublist ''holding'' (lower ltcg_non_strict_file)"
    "sublist ''365'' ltcg_non_strict_file \<or> sublist ''year'' (lower ltcg_non_strict_file)"
    "sublist ''>= 365'' ltcg_non_strict_file \<or> \<not> sublist ''> 365'' ltcg_non_strict_file"
    by code_simp+
  have b: "0 < length (split_lines ltcg_strict_no_space_file)"
    "ltcg_strict_no_space_file = split_lines ltcg_strict_no_space_file ! 0"
    "sublist ''holding'' (lower ltcg_strict_no_space_file)"
    "sublist ''365'' ltcg_strict_no_space_file \<or> sublist ''year'' (lower ltcg_strict_no_space_file)"
    "sublist ''>= 365'' ltcg_strict_no_space_file \<or> \<not> sublist ''> 365'' ltcg_strict_no_space_file"
    by code_simp+
  have c: "0 < length (split_lines ltcg_strict_file)"
    "ltcg_strict_file = split_lines ltcg_strict_file ! 0"
    "sublist ''holding'' (lower ltcg_strict_file)"
    "sublist ''365'' ltcg_strict_file \<or> sublist ''year'' (lower ltcg_strict_file)"
    "sublist ''> 365'' ltcg_strict_file \<and> \<not> sublist ''>= 365'' ltcg_strict_file"
    by code_simp+
  from C6_ltcg_boundary_amended[OF a(1-4), of "''tax.py''"] a(5)
  have 1: "\<exists>iss \<in> set (validate_ltcg_classification ''tax.py'' ltcg_non_strict_file).
       TaxIssue.severity iss = ''high'' \<and> TaxIssue.rule iss = ''ltcg_holding_period_boundary''
       \<and> TaxIssue.line_number iss = int 0 + 1"
    by blast
  from C6_ltcg_boundary_amended[OF b(1-4), of "''tax.py''"] b(5)
  have 2: "\<exists>iss \<in> set (validate_ltcg_classification ''tax.py'' ltcg_strict_no_space_file).
       TaxIssue.severity iss = ''high'' \<and> TaxIssue.rule iss = ''ltcg_holding_period_boundary''
       \<and> TaxIssue.line_number iss = int 0 + 1"
    by blast
  from C6_ltcg_boundary_amended[OF c(1-4), of "''tax.py''"] c(5)
  have 3: "\<not> (\<exists>iss \<in> set (validate_ltcg_classification ''tax.py'' ltcg_strict_file).
       TaxIssue.rule iss = ''ltcg_holding_period_boundary'' \<and> TaxIssue.line_number iss = int 0 + 1)"
    by blast
  from 1 2 3 show ?thesis by blast
qed

section \<open>Properties of the Kelly formula rule\<close>

subsection \<open>The keyword pattern and the context window, line by line\<close>

lemma lit_i_Cons:
  "lit_i (c # s) = Seq (Cls (\<lambda>x. lower_char x = lower_char c)) (lit_i s)"
  by (simp add: lit_i_def)

lemma ends_lit_i:
  "ends (lit_i s) t = (if prefix (lower s) (lower t) then [drop (length s) t] else [])"
proof (induction s arbitrary: t)
  case Nil
  then show ?case by (simp add: lit_i_def lower_def)
next
  case (Cons c s)
  show ?case
  proof (cases t)
    case Nil
    then show ?thesis by (simp add: lit_i_Cons lower_def)
  next
    case (Cons x xs)
    then show ?thesis using Cons.IH[of xs] by (auto simp: lit_i_Cons lower_def)
  qed
qed

lemma re_search_iff:
  "re_search r t \<longleftrightarrow> (\<exists>u. suffix u t \<and> ends r u \<noteq> [])"
  by (induction t) (auto simp: suffix_Cons)

lemma sublist_lower_iff:
  "sublist k (lower t) \<longleftrightarrow> (\<exists>u. suffix u t \<and> prefix k (lower u))"
proof
  assume "sublist k (lower t)"
  then obtain y where y: "suffix y (map lower_char t)" "prefix k y"
    unfolding sublist_altdef' lower_def by blast
  from suffix_map_rightE[OF y(1)] obtain u where "suffix u t" "y = map lower_char u"
    by blast
  with y(2) show "\<exists>u. suffix u t \<and> prefix k (lower u)"
    unfolding lower_def by blast
next
  assume "\<exists>u. suffix u t \<and> prefix k (lower u)"
  then obtain u where "suffix u t" "prefix k (lower u)" by blast
  then have "suffix (lower u) (lower t)" "prefix k (lower u)"
    unfolding lower_def by (simp_all add: map_mono_suffix)
  then show "sublist k (lower t)" unfolding sublist_altdef' by blast
qed

text \<open>The regular expression with \<open>re.IGNORECASE\<close> finds what the three keywords say.\<close>

lemma kelly_pattern_iff:
  "re_search kelly_pattern l \<longleftrightarrow>
     sublist ''kelly'' (lower l) \<or> sublist ''fraction'' (lower l) \<or> sublist ''position_size'' (lower l)"
proof -
  have low: "lower ''kelly'' = ''kelly''" "lower ''fraction'' = ''fraction''"
    "lower ''position_size'' = ''position_size''"
    by (simp_all add: lower_def lower_char_def)
  have "ends kelly_pattern u \<noteq> [] \<longleftrightarrow>
      prefix ''kelly'' (lower u) \<or> prefix ''fraction'' (lower u) \<or> prefix ''position_size'' (lower u)"
    for u
    unfolding kelly_pattern_def ends.simps ends_lit_i low by auto
  then show ?thesis
    unfolding re_search_iff sublist_lower_iff by blast
qed

lemma kelly_keyword_line_iff:
  "kelly_keyword_line lines i \<longleftrightarrow> i < length lines \<and> re_search kelly_pattern (lines ! i)"
  by (simp add: kelly_keyword_line_def kelly_pattern_iff)

text \<open>A text without a newline lies in the joined lines exactly when it lies in one of them.\<close>

lemma sublist_separator:
  "c \<notin> set t \<Longrightarrow> sublist t (a @ c # b) \<longleftrightarrow> sublist t a \<or> sublist t b"
  by (auto simp: sublist_append sublist_Cons_right prefix_Cons)

lemma sublist_join_lines:
  "t \<noteq> [] \<Longrightarrow> CHR 0x0A \<notin> set t \<Longrightarrow> sublist t (join_lines ls) \<longleftrightarrow> (\<exists>l \<in> set ls. sublist t l)"
  by (induction ls rule: join_lines.induct) (auto simp: sublist_separator)

lemma set_slice:
  "set (slice a b xs) = {xs ! j | j. a \<le> j \<and> j < b \<and> j < length xs}"
proof (intro set_eqI iffI)
  fix l
  assume "l \<in> set (slice a b xs)"
  then obtain k where k: "k < length (take (b - a) (drop a xs))" "take (b - a) (drop a xs) ! k = l"
    by (auto simp: slice_def in_set_conv_nth)
  then have "l = xs ! (a + k)" "a \<le> a + k" "a + k < b" "a + k < length xs" by auto
  then show "l \<in> {xs ! j | j. a \<le> j \<and> j < b \<and> j < length xs}" by blast
next
  fix l
  assume "l \<in> {xs ! j | j. a \<le> j \<and> j < b \<and> j < length xs}"
  then obtain j where j: "l = xs ! j" "a \<le> j" "j < b" "j < length xs" by blast
  then have "j - a < length (take (b - a) (drop a xs))" "take (b - a) (drop a xs) ! (j - a) = l"
    by auto
  then show "l \<in> set (slice a b xs)"
    unfolding slice_def in_set_conv_nth by blast
qed

lemma context_has:
  assumes "t \<noteq> []" and "CHR 0x0A \<notin> set t"
  shows "sublist t (kelly_context lines i) \<longleftrightarrow> window_has lines i t"
proof -
  have "sublist t (kelly_context lines i) \<longleftrightarrow>
      (\<exists>l \<in> set (slice (i - 3) (min (length lines) (i + 4)) lines). sublist t l)"
    using assms by (simp add: kelly_context_def sublist_join_lines)
  also have "\<dots> \<longleftrightarrow> (\<exists>j. i - 3 \<le> j \<and> j < min (length lines) (i + 4) \<and> sublist t (lines ! j))"
    unfolding set_slice by auto
  also have "\<dots> \<longleftrightarrow> window_has lines i t"
    by (auto simp: window_has_def list_ex_iff)
  finally show ?thesis .
qed

lemma term_families:
  "has_win_prob (kelly_context lines i) \<longleftrightarrow>
     window_has_any lines i [''p'', ''win_probability'', ''win_prob'']"
  "has_lose_prob (kelly_context lines i) \<longleftrightarrow>
     window_has_any lines i [''q'', ''1-p'', ''lose_prob'']"
  "has_payoff_ratio (kelly_context lines i) \<longleftrightarrow>
     window_has_any lines i [''b'', ''payoff_ratio'', ''odds'']"
  by (simp_all add: has_win_prob_def has_lose_prob_def has_payoff_ratio_def window_has_any_def
      context_has)

subsection \<open>The loop and the other two checks\<close>

text \<open>
  The loop stops at the first Kelly line whose context is incomplete and reports it; it
  reports nothing when every Kelly line has a complete context.
\<close>

lemma kelly_formula_loop_cases:
  "(fst (kelly_formula_loop fp lines js f) = []
      \<and> (\<forall>i \<in> set js. re_search kelly_pattern (lines ! i) \<longrightarrow>
            has_win_prob (kelly_context lines i) \<and> has_lose_prob (kelly_context lines i)
            \<and> has_payoff_ratio (kelly_context lines i)))
   \<or> (\<exists>i \<in> set js. re_search kelly_pattern (lines ! i)
         \<and> \<not> (has_win_prob (kelly_context lines i) \<and> has_lose_prob (kelly_context lines i)
              \<and> has_payoff_ratio (kelly_context lines i))
         \<and> fst (kelly_formula_loop fp lines js f) = [kelly_formula_issue fp i (kelly_context lines i)])"
  by (induction js arbitrary: f) (auto simp: Let_def)

lemma kelly_missing_rule:
  "TradingIssue.rule (kelly_missing_issue fp) \<noteq> ''Kelly Criterion Formula''"
  by (simp add: kelly_missing_issue_def)

lemma validate_kelly_fraction_rule:
  "iss \<in> set (validate_kelly_fraction fp lines) \<Longrightarrow> TradingIssue.rule iss = ''Kelly Fraction Scaling''"
  by (auto simp: validate_kelly_fraction_def validate_kelly_fraction_at_def Let_def
      kelly_fraction_issue_def split: if_splits)

lemma validate_kelly_edge_cases_rule:
  "iss \<in> set (validate_kelly_edge_cases fp lines) \<Longrightarrow>
     TradingIssue.rule iss = ''Kelly Edge Case: Division by Zero''
     \<or> TradingIssue.rule iss = ''Kelly Edge Case: Negative Kelly''"
  by (auto simp: validate_kelly_edge_cases_def validate_kelly_edge_cases_at_def Let_def
      kelly_div_zero_issue_def kelly_negative_issue_def split: if_splits)

text \<open>The formula issues of \<open>analyze\<close> are those that the loop appended.\<close>

lemma analyze_formula_issues:
  "(iss \<in> set (KellyCriterionValidator_analyze fp content)
      \<and> TradingIssue.rule iss = ''Kelly Criterion Formula'')
   \<longleftrightarrow> (iss \<in> set (fst (kelly_formula_loop fp (split_lines content)
                    [0..<length (split_lines content)] False))
      \<and> TradingIssue.rule iss = ''Kelly Criterion Formula'')"
  using kelly_missing_rule[of fp]
  by (auto simp: KellyCriterionValidator_analyze_def validate_kelly_formula_def Let_def
      case_prod_unfold
      split: if_splits
      dest: validate_kelly_fraction_rule validate_kelly_edge_cases_rule)

lemma kelly_formula_issue_fields:
  "TradingIssue.rule (kelly_formula_issue fp i c) = ''Kelly Criterion Formula''"
  "TradingIssue.severity (kelly_formula_issue fp i c) = CRITICAL"
  "TradingIssue.line_number (kelly_formula_issue fp i c) = int i + 1"
  by (simp_all add: kelly_formula_issue_def)

subsection \<open>The claim\<close>

text \<open>
  Claim C7 as stated fails: the rule tests for the letters \<open>p\<close>, \<open>q\<close> and \<open>b\<close>
  anywhere in the window. The line \<^verbatim>\<open>kelly = win_prob * payoff_ratio / quantity\<close> has a
  win-probability and a payoff-ratio term and no loss-probability term, and no
  \<open>Kelly Criterion Formula\<close> issue is emitted for it: the \<open>q\<close> of \<open>quantity\<close> counts.
\<close>

theorem C7_no_loss_term_not_flagged_counterexample:
  "sublist ''kelly'' kelly_quantity_file \<and> sublist ''win_prob'' kelly_quantity_file
   \<and> sublist ''payoff_ratio'' kelly_quantity_file
   \<and> map TradingIssue.rule (KellyCriterionValidator_analyze ''sizing.py'' kelly_quantity_file) =
       [''Kelly Fraction Scaling'', ''Kelly Edge Case: Division by Zero'',
        ''Kelly Edge Case: Negative Kelly'']"
  by code_simp

text \<open>
  Claim C7, amended. The three term families are substring tests on the context
  window, the lines from three before to three after the line with the keyword: a
  win-probability term is \<open>p\<close>, \<open>win_probability\<close> or \<open>win_prob\<close>, a loss-probability
  term is \<open>q\<close>, \<open>1-p\<close> or \<open>lose_prob\<close>, a payoff-ratio term is \<open>b\<close>, \<open>payoff_ratio\<close>
  or \<open>odds\<close>, each wherever it occurs in a line of the window. If some line holds a
  Kelly keyword and its window has a win-probability and a payoff-ratio term but no
  loss-probability term, \<open>KellyCriterionValidator\<close> emits a critical
  \<open>Kelly Criterion Formula\<close> issue. If the window of every such line has all three, it
  emits no such issue; and it never emits one at a line whose window has all three.
\<close>

theorem C7_kelly_formula_window:
  "((\<exists>i. kelly_keyword_line (split_lines content) i
         \<and> window_has_any (split_lines content) i [''p'', ''win_probability'', ''win_prob'']
         \<and> window_has_any (split_lines content) i [''b'', ''payoff_ratio'', ''odds'']
         \<and> \<not> window_has_any (split_lines content) i [''q'', ''1-p'', ''lose_prob''])
      \<longrightarrow> (\<exists>iss \<in> set (KellyCriterionValidator_analyze fp content).
             TradingIssue.severity iss = CRITICAL \<and> TradingIssue.rule iss = ''Kelly Criterion Formula''))
   \<and> ((\<forall>i. kelly_keyword_line (split_lines content) i \<longrightarrow>
           window_has_any (split_lines content) i [''p'', ''win_probability'', ''win_prob'']
         \<and> window_has_any (split_lines content) i [''q'', ''1-p'', ''lose_prob'']
         \<and> window_has_any (split_lines content) i [''b'', ''payoff_ratio'', ''odds''])
      \<longrightarrow> \<not> (\<exists>iss \<in> set (KellyCriterionValidator_analyze fp content).
             TradingIssue.rule iss = ''Kelly Criterion Formula''))
   \<and> (\<forall>i. kelly_keyword_line (split_lines content) i
         \<and> window_has_any (split_lines content) i [''p'', ''win_probability'', ''win_prob'']
         \<and> window_has_any (split_lines content) i [''q'', ''1-p'', ''lose_prob'']
         \<and> window_has_any (split_lines content) i [''b'', ''payoff_ratio'', ''odds'']
      \<longrightarrow> \<not> (\<exists>iss \<in> set (KellyCriterionValidator_analyze fp content).
             TradingIssue.rule iss = ''Kelly Criterion Formula''
             \<and> TradingIssue.line_number iss = int i + 1))"
proof -
  let ?lines = "split_lines content"
  let ?loop = "fst (kelly_formula_loop fp ?lines [0..<length ?lines] False)"
  let ?complete = "\<lambda>i. has_win_prob (kelly_context ?lines i) \<and> has_lose_prob (kelly_context ?lines i)
      \<and> has_payoff_ratio (kelly_context ?lines i)"
  note cases = kelly_formula_loop_cases[of fp ?lines "[0..<length ?lines]" False]
  have one: "\<exists>iss \<in> set (KellyCriterionValidator_analyze fp content).
             TradingIssue.severity iss = CRITICAL \<and> TradingIssue.rule iss = ''Kelly Criterion Formula''"
    if "kelly_keyword_line ?lines i" and "\<not> window_has_any ?lines i [''q'', ''1-p'', ''lose_prob'']" for i
  proof -
    from that have "i \<in> set [0..<length ?lines]" "re_search kelly_pattern (?lines ! i)"
      "\<not> ?complete i"
      by (simp_all add: kelly_keyword_line_iff term_families)
    with cases obtain j where "?loop = [kelly_formula_issue fp j (kelly_context ?lines j)]"
      by blast
    then have "kelly_formula_issue fp j (kelly_context ?lines j) \<in> set ?loop" by simp
    with analyze_formula_issues[of "kelly_formula_issue fp j (kelly_context ?lines j)" fp content]
    have "kelly_formula_issue fp j (kelly_context ?lines j) \<in> set (KellyCriterionValidator_analyze fp content)"
      by (simp add: kelly_formula_issue_fields)
    then show ?thesis
      by (rule bexI[rotated]) (simp add: kelly_formula_issue_fields)
  qed
  have two: "\<not> (\<exists>iss \<in> set (KellyCriterionValidator_analyze fp content).
             TradingIssue.rule iss = ''Kelly Criterion Formula'')"
    if all: "\<forall>i. kelly_keyword_line ?lines i \<longrightarrow>
           window_has_any ?lines i [''p'', ''win_probability'', ''win_prob'']
         \<and> window_has_any ?lines i [''q'', ''1-p'', ''lose_prob'']
         \<and> window_has_any ?lines i [''b'', ''payoff_ratio'', ''odds'']"
  proof -
    from all have "\<forall>i \<in> set [0..<length ?lines].
        re_search kelly_pattern (?lines ! i) \<longrightarrow> ?complete i"
      by (simp add: kelly_keyword_line_iff term_families)
    with cases have "?loop = []" by blast
    with analyze_formula_issues[of _ fp content] show ?thesis by auto
  qed
  have three: "\<not> (\<exists>iss \<in> set (KellyCriterionValidator_analyze fp content).
             TradingIssue.rule iss = ''Kelly Criterion Formula''
             \<and> TradingIssue.line_number iss = int i + 1)"
    if "window_has_any ?lines i [''p'', ''win_probability'', ''win_prob'']"
      and "window_has_any ?lines i [''q'', ''1-p'', ''lose_prob'']"
      and "window_has_any ?lines i [''b'', ''payoff_ratio'', ''odds'']" for i
  proof
    assume "\<exists>iss \<in> set (KellyCriterionValidator_analyze fp content).
             TradingIssue.rule iss = ''Kelly Criterion Formula''
             \<and> TradingIssue.line_number iss = int i + 1"
    then obtain iss where iss: "iss \<in> set ?loop" and l: "TradingIssue.line_number iss = int i + 1"
      using analyze_formula_issues[of _ fp content] by blast
    from cases iss obtain j where j: "\<not> ?complete j"
      and eq: "?loop = [kelly_formula_issue fp j (kelly_context ?lines j)]"
      by force
    from iss eq l have "j = i" by (simp add: kelly_formula_issue_fields)
    with j that show False by (simp add: term_families)
  qed
  from one two three show ?thesis by blast
qed

text \<open>
  Two files. In
  \<^verbatim>\<open>q = 1 - p\<close>, \<^verbatim>\<open>x = 0\<close>, \<^verbatim>\<open>y = 0\<close>, \<^verbatim>\<open>z = 0\<close>, \<^verbatim>\<open>kelly = p * b\<close>
  the \<open>q\<close> is four lines above the Kelly line, outside its window, and the issue is
  emitted. In
  \<^verbatim>\<open>q = 1 - p\<close>, \<^verbatim>\<open>x = 0\<close>, \<^verbatim>\<open>y = 0\<close>, \<^verbatim>\<open>kelly = edge / b\<close>
  it is three lines above, inside the window, and no issue is emitted.
\<close>

theorem C7_kelly_formula_window_witness:
  "(\<exists>iss \<in> set (KellyCriterionValidator_analyze ''sizing.py'' kelly_incomplete_file).
       TradingIssue.severity iss = CRITICAL \<and> TradingIssue.rule iss = ''Kelly Criterion Formula'')
   \<and> \<not> (\<exists>iss \<in> set (KellyCriterionValidator_analyze ''sizing.py'' kelly_complete_file).
       TradingIssue.rule iss = ''Kelly Criterion Formula'')
   \<and> \<not> (\<exists>iss \<in> set (KellyCriterionValidator_analyze ''sizing.py'' kelly_complete_file).
       TradingIssue.rule iss = ''Kelly Criterion Formula'' \<and> TradingIssue.line_number iss = int 3 + 1)"
proof -
  have a: "kelly_keyword_line (split_lines kelly_incomplete_file) 4
         \<and> window_has_any (split_lines kelly_incomplete_file) 4 [''p'', ''win_probability'', ''win_prob'']
         \<and> window_has_any (split_lines kelly_incomplete_file) 4 [''b'', ''payoff_ratio'', ''odds'']
         \<and> \<not> window_has_any (split_lines kelly_incomplete_file) 4 [''q'', ''1-p'', ''lose_prob'']"
    by code_simp
  have len: "length (split_lines kelly_complete_file) = 4" by code_simp
  have no: "\<not> kelly_keyword_line (split_lines kelly_complete_file) 0"
    "\<not> kelly_keyword_line (split_lines kelly_complete_file) 1"
    "\<not> kelly_keyword_line (split_lines kelly_complete_file) 2"
    by code_simp+
  have b3: "kelly_keyword_line (split_lines kelly_complete_file) 3
         \<and> window_has_any (split_lines kelly_complete_file) 3 [''p'', ''win_probability'', ''win_prob'']
         \<and> window_has_any (split_lines kelly_complete_file) 3 [''q'', ''1-p'', ''lose_prob'']
         \<and> window_has_any (split_lines kelly_complete_file) 3 [''b'', ''payoff_ratio'', ''odds'']"
    by code_simp
  have only: "i = 3" if "kelly_keyword_line (split_lines kelly_complete_file) i" for i
  proof -
    from that have "i < 4" by (simp add: kelly_keyword_line_def len)
    then consider "i = 0" | "i = 1" | "i = 2" | "i = 3" by linarith
    then show ?thesis using that no by cases auto
  qed
  have b: "\<forall>i. kelly_keyword_line (split_lines kelly_complete_file) i \<longrightarrow>
           window_has_any (split_lines kelly_complete_file) i [''p'', ''win_probability'', ''win_prob'']
         \<and> window_has_any (split_lines kelly_complete_file) i [''q'', ''1-p'', ''lose_prob'']
         \<and> window_has_any (split_lines kelly_complete_file) i [''b'', ''payoff_ratio'', ''odds'']"
    using only b3 by blast
  from C7_kelly_formula_window[of kelly_incomplete_file "''sizing.py''"] a
  have 1: "\<exists>iss \<in> set (KellyCriterionValidator_analyze ''sizing.py'' kelly_incomplete_file).
       TradingIssue.severity iss = CRITICAL \<and> TradingIssue.rule iss = ''Kelly Criterion Formula''"
    by blast
  from C7_kelly_formula_window[of kelly_complete_file "''sizing.py''"] b b3
  have 2: "\<not> (\<exists>iss \<in> set (KellyCriterionValidator_analyze ''sizing.py'' kelly_complete_file).
       TradingIssue.rule iss = ''Kelly Criterion Formula'')"
    and 3: "\<not> (\<exists>iss \<in> set (KellyCriterionValidator_analyze ''sizing.py'' kelly_complete_file).
       TradingIssue.rule iss = ''Kelly Criterion Formula'' \<and> TradingIssue.line_number iss = int 3 + 1)"
    by blast+
  from 1 2 3 show ?thesis by blast
qed

section \<open>Properties of the statistics report\<close>

lemma length_filter_severity:
  "length (filter (\<lambda>i. ScanIssue.severity i = sev) all_issues) = severity_count sev all_issues"
  by (induction all_issues) (simp_all add: severity_count_def)

text \<open>
  Claim C9. For every collection of findings, the risk score that
  \<open>_generate_statistics\<close> derives is \<open>critical_count*10 + high_count*5\<close> plus the sum
  of the findings' \<open>impact_score\<close> (in the scanner's own float arithmetic), and the risk
  band is critical when \<open>critical_count > 5\<close>, otherwise high when there is a critical
  finding, otherwise medium when \<open>high_count > 10\<close>, otherwise low.
\<close>

theorem C9_statistics_report:
  "risk_score (generate_statistics py_sum py_add py_div all_issues) =
     py_add (int (severity_count ''critical'' all_issues) * 10
             + int (severity_count ''high'' all_issues) * 5)
            (py_sum (map impact_score all_issues))
   \<and> risk_assessment (generate_statistics py_sum py_add py_div all_issues) =
       spec_risk_band (severity_count ''critical'' all_issues) (severity_count ''high'' all_issues)
   \<and> critical_issues (generate_statistics py_sum py_add py_div all_issues) =
       severity_count ''critical'' all_issues
   \<and> high_issues (generate_statistics py_sum py_add py_div all_issues) =
       severity_count ''high'' all_issues
   \<and> total_issues (generate_statistics py_sum py_add py_div all_issues) = length all_issues"
  by (auto simp add: generate_statistics_def Let_def length_filter_severity spec_risk_band_def)

section \<open>Properties of the latency percentiles\<close>

lemma py_index_in_range:
  "0 \<le> i \<Longrightarrow> i < int (length xs) \<Longrightarrow> py_index xs i = Inr (xs ! nat i)"
  by (simp add: py_index_def)

text \<open>
  For a factor \<open>c\<close> between \<open>1/2\<close> and a little less than 1 the two roundings cannot
  lift \<open>n * c\<close> to \<open>n\<close>.
\<close>

lemma percentile_index_bound:
  assumes rnd: "rounds_to_nearest rnd n" and n: "1 \<le> n"
    and c_lo: "1 / 2 \<le> c" and c_hi: "c * (1 + 1 / 2 ^ 53)\<^sup>2 < 1"
  shows "0 \<le> percentile_index rnd n c \<and> percentile_index rnd n c < int n"
proof -
  define e :: real where "e = 1 / 2 ^ 53"
  define a where "a = rnd (real n)"
  define p where "p = a * c"
  define b where "b = rnd p"
  have e: "0 < e" "e \<le> 1 / 2" by (simp_all add: e_def)
  have n1: "1 \<le> real n" using n by simp
  have sq: "1 \<le> (1 + e)\<^sup>2" using e by (simp add: power2_eq_square algebra_simps)
  have c1: "c \<le> 1"
  proof -
    have "c = c * 1" by simp
    also have "\<dots> \<le> c * (1 + e)\<^sup>2" using sq c_lo by (intro mult_left_mono) auto
    also have "\<dots> < 1" using c_hi unfolding e_def .
    finally show ?thesis by simp
  qed
  have "\<bar>rnd (real n) - real n\<bar> \<le> real n / 2 ^ 53"
    using rnd n1 unfolding rounds_to_nearest_def by auto
  then have "\<bar>a - real n\<bar> \<le> real n * e"
    by (simp add: a_def e_def)
  then have "real n - real n * e \<le> a" "a \<le> real n + real n * e"
    unfolding abs_diff_le_iff by simp_all
  then have a: "real n * (1 - e) \<le> a" "a \<le> real n * (1 + e)"
    by (simp_all add: algebra_simps)
  have a_lo: "1 / 2 \<le> a"
  proof -
    have "1 / 2 \<le> 1 - e" using e by simp
    also have "\<dots> = 1 * (1 - e)" by simp
    also have "\<dots> \<le> real n * (1 - e)" using n1 e by (intro mult_right_mono) auto
    also have "\<dots> \<le> a" by (rule a(1))
    finally show ?thesis .
  qed
  have p_lo: "1 / 4 \<le> p"
  proof -
    have "(1 / 4 :: real) = (1 / 2) * (1 / 2)" by simp
    also have "\<dots> \<le> a * c" using a_lo c_lo by (intro mult_mono) auto
    finally show ?thesis by (simp only: p_def)
  qed
  have p_le: "p \<le> real n * (1 + e) * c"
    unfolding p_def using a(2) c_lo by (intro mult_right_mono) auto
  have p_hi: "p \<le> 2 * real n"
  proof -
    note p_le
    also have "real n * (1 + e) * c \<le> real n * (1 + e) * 1"
      using c1 e n1 by (intro mult_left_mono) auto
    also have "\<dots> = real n * (1 + e)" by simp
    also have "\<dots> \<le> real n * 2" using e n1 by (intro mult_left_mono) auto
    also have "\<dots> = 2 * real n" by simp
    finally show ?thesis .
  qed
  have "\<bar>rnd p - p\<bar> \<le> p / 2 ^ 53"
    using rnd p_lo p_hi unfolding rounds_to_nearest_def by auto
  then have "\<bar>b - p\<bar> \<le> p * e"
    by (simp add: b_def e_def)
  then have "p - p * e \<le> b" "b \<le> p + p * e"
    unfolding abs_diff_le_iff by simp_all
  then have b: "p * (1 - e) \<le> b" "b \<le> p * (1 + e)"
    by (simp_all add: algebra_simps)
  have b_lo: "0 \<le> b"
  proof -
    have "0 \<le> p * (1 - e)" using p_lo e by (intro mult_nonneg_nonneg) auto
    also note b(1)
    finally show ?thesis .
  qed
  have b_hi: "b < real n"
  proof -
    note b(2)
    also have "p * (1 + e) \<le> (real n * (1 + e) * c) * (1 + e)"
      using p_le e by (intro mult_right_mono) auto
    also have "\<dots> = real n * (c * (1 + e)\<^sup>2)" by (simp add: power2_eq_square)
    also have "\<dots> < real n * 1"
      using c_hi n1 unfolding e_def by (intro mult_strict_left_mono) auto
    also have "\<dots> = real n" by simp
    finally show ?thesis .
  qed
  have "percentile_index rnd n c = \<lfloor>b\<rfloor>"
    using b_lo by (simp add: percentile_index_def py_int_def b_def p_def a_def)
  moreover have "0 \<le> \<lfloor>b\<rfloor>" using b_lo by simp
  moreover have "\<lfloor>b\<rfloor> < int n" using b_hi by (simp add: floor_less_iff)
  ultimately show ?thesis by simp
qed

lemma float_constants:
  "1 / 2 \<le> c50" "c50 * (1 + 1 / 2 ^ 53)\<^sup>2 < 1"
  "1 / 2 \<le> c95" "c95 * (1 + 1 / 2 ^ 53)\<^sup>2 < 1"
  "1 / 2 \<le> c99" "c99 * (1 + 1 / 2 ^ 53)\<^sup>2 < 1"
  by (simp_all add: c50_def c95_def c99_def power2_eq_square field_simps)

text \<open>
  Claim C10. \<open>get_percentiles\<close> returns the empty dictionary when no latency is recorded
  for the event type. Otherwise, with \<open>n \<ge> 1\<close> latencies, each of the indices
  \<open>int(n*0.50)\<close>, \<open>int(n*0.95)\<close> and \<open>int(n*0.99)\<close> is at least 0 and less than \<open>n\<close>,
  no lookup raises, and the function returns its dictionary of six entries.
\<close>

theorem C10_get_percentiles_total:
  "((event_latencies event_type = None \<or> event_latencies event_type = Some [])
      \<longrightarrow> get_percentiles rnd py_sum py_div event_latencies event_type = Inr [])
   \<and> (\<forall>l. event_latencies event_type = Some l \<and> l \<noteq> [] \<and> rounds_to_nearest rnd (length l)
      \<longrightarrow> (\<forall>c \<in> {c50, c95, c99}.
              0 \<le> percentile_index rnd (length l) c \<and> percentile_index rnd (length l) c < int (length l))
          \<and> (\<exists>r. get_percentiles rnd py_sum py_div event_latencies event_type = Inr r
                \<and> map fst r = [''p50'', ''p95'', ''p99'', ''min'', ''max'', ''avg'']))"
proof (intro conjI allI impI)
  assume "event_latencies event_type = None \<or> event_latencies event_type = Some []"
  then show "get_percentiles rnd py_sum py_div event_latencies event_type = Inr []"
    by (auto simp: get_percentiles_def)
next
  fix l
  assume h: "event_latencies event_type = Some l \<and> l \<noteq> [] \<and> rounds_to_nearest rnd (length l)"
  then have n: "1 \<le> length l" by (cases l) auto
  note bound = percentile_index_bound[OF _ n]
  from h show "\<forall>c \<in> {c50, c95, c99}.
      0 \<le> percentile_index rnd (length l) c \<and> percentile_index rnd (length l) c < int (length l)"
    using bound float_constants by blast
next
  fix l
  assume h: "event_latencies event_type = Some l \<and> l \<noteq> [] \<and> rounds_to_nearest rnd (length l)"
  then have n: "1 \<le> length l" by (cases l) auto
  from h have rnd: "rounds_to_nearest rnd (length l)" by simp
  have ne: "sort l \<noteq> []" using h by (cases l) auto
  have len: "length (sort l) = length l" by simp
  have i50: "py_index (sort l) (percentile_index rnd (length l) c50)
      = Inr (sort l ! nat (percentile_index rnd (length l) c50))"
    using percentile_index_bound[OF rnd n float_constants(1,2)] by (intro py_index_in_range) simp_all
  have i95: "py_index (sort l) (percentile_index rnd (length l) c95)
      = Inr (sort l ! nat (percentile_index rnd (length l) c95))"
    using percentile_index_bound[OF rnd n float_constants(3,4)] by (intro py_index_in_range) simp_all
  have i99: "py_index (sort l) (percentile_index rnd (length l) c99)
      = Inr (sort l ! nat (percentile_index rnd (length l) c99))"
    using percentile_index_bound[OF rnd n float_constants(5,6)] by (intro py_index_in_range) simp_all
  obtain x xs where srt: "sort l = x # xs" using ne by (cases "sort l") auto
  have mn: "py_min (sort l) = Inr (fold min xs x)" and mx: "py_max (sort l) = Inr (fold max xs x)"
    by (simp_all add: py_min_def py_max_def srt)
  from h have "get_percentiles rnd py_sum py_div event_latencies event_type =
     Inr [(''p50'', sort l ! nat (percentile_index rnd (length l) c50)),
          (''p95'', sort l ! nat (percentile_index rnd (length l) c95)),
          (''p99'', sort l ! nat (percentile_index rnd (length l) c99)),
          (''min'', fold min xs x), (''max'', fold max xs x),
          (''avg'', py_div (py_sum (sort l)) (int (length l)))]"
    using ne n by (simp add: get_percentiles_def Let_def i50 i95 i99 mn mx del: sort_key_simps)
  then show "\<exists>r. get_percentiles rnd py_sum py_div event_latencies event_type = Inr r
                \<and> map fst r = [''p50'', ''p95'', ''p99'', ''min'', ''max'', ''avg'']"
    by simp
qed

text \<open>No latencies for the type, and the three latencies 30, 10 and 20 with exact rounding.\<close>

theorem C10_get_percentiles_total_witness:
  "get_percentiles (\<lambda>x. x) sum_list (\<lambda>s n. s div n) (\<lambda>t. None) ''fill'' = Inr ([] :: (string \<times> int) list)
   \<and> 0 \<le> percentile_index (\<lambda>x. x) (length [30, 10, 20 :: int]) c50
   \<and> percentile_index (\<lambda>x. x) (length [30, 10, 20 :: int]) c50 < int (length [30, 10, 20 :: int])
   \<and> 0 \<le> percentile_index (\<lambda>x. x) (length [30, 10, 20 :: int]) c95
   \<and> percentile_index (\<lambda>x. x) (length [30, 10, 20 :: int]) c95 < int (length [30, 10, 20 :: int])
   \<and> 0 \<le> percentile_index (\<lambda>x. x) (length [30, 10, 20 :: int]) c99
   \<and> percentile_index (\<lambda>x. x) (length [30, 10, 20 :: int]) c99 < int (length [30, 10, 20 :: int])
   \<and> (\<exists>r. get_percentiles (\<lambda>x. x) sum_list (\<lambda>s n. s div n) (\<lambda>t. Some [30, 10, 20 :: int]) ''fill'' = Inr r
        \<and> map fst r = [''p50'', ''p95'', ''p99'', ''min'', ''max'', ''avg''])"
proof -
  have r: "rounds_to_nearest (\<lambda>x. x) (length [30, 10, 20 :: int])"
    by (simp add: rounds_to_nearest_def)
  have a: "(\<lambda>t. None :: int list option) ''fill'' = None \<or> (\<lambda>t. None :: int list option) ''fill'' = Some []"
    by simp
  have b: "(\<lambda>t. Some [30, 10, 20 :: int]) ''fill'' = Some [30, 10, 20 :: int] \<and> [30, 10, 20 :: int] \<noteq> []
      \<and> rounds_to_nearest (\<lambda>x. x) (length [30, 10, 20 :: int])"
    using r by simp
  from C10_get_percentiles_total[of "\<lambda>t. None :: int list option" "''fill''" "\<lambda>x. x" sum_list "\<lambda>s n. s div n"] a
  have 1: "get_percentiles (\<lambda>x. x) sum_list (\<lambda>s n. s div n) (\<lambda>t. None) ''fill'' = Inr ([] :: (string \<times> int) list)"
    by blast
  from C10_get_percentiles_total[of "\<lambda>t. Some [30, 10, 20 :: int]" "''fill''" "\<lambda>x. x" sum_list "\<lambda>s n. s div n"] b
  have 2: "(\<forall>c \<in> {c50, c95, c99}.
        0 \<le> percentile_index (\<lambda>x. x) (length [30, 10, 20 :: int]) c
        \<and> percentile_index (\<lambda>x. x) (length [30, 10, 20 :: int]) c < int (length [30, 10, 20 :: int]))
   \<and> (\<exists>r. get_percentiles (\<lambda>x. x) sum_list (\<lambda>s n. s div n) (\<lambda>t. Some [30, 10, 20 :: int]) ''fill'' = Inr r
        \<and> map fst r = [''p50'', ''p95'', ''p99'', ''min'', ''max'', ''avg''])"
    by blast
  from 1 2 show ?thesis by blast
qed

end
